theory Spec2Isabelle
  imports Main "HOL-Library.Word"
begin

unbundle bit_operations_syntax

section \<open>bns: name codec, record frame and message codec\<close>

text \<open>
  A shallow embedding of \<^verbatim>\<open>lib/util.js\<close>, \<^verbatim>\<open>lib/encoding.js\<close> and the message part of
  \<^verbatim>\<open>lib/wire.js\<close>. Buffers are lists of octets (\<open>nat\<close> below 256), JavaScript strings
  are \<open>string\<close>, every \<^verbatim>\<open>throw\<close> and failed \<^verbatim>\<open>assert\<close> is a value of \<open>error\<close>.
\<close>

subsection \<open>Errors\<close>

datatype error =
    EncodingError nat string
  | AssertionError
  | TypeError
  | RangeError
  | Error
  | Unmodelled nat

type_synonym buffer = "nat list"

definition ebind :: "error + 'a \<Rightarrow> ('a \<Rightarrow> error + 'b) \<Rightarrow> error + 'b" where
  "ebind m f = (case m of Inl e \<Rightarrow> Inl e | Inr x \<Rightarrow> f x)"

subsection \<open>lib/util.js\<close>

text \<open>
  \<^verbatim>\<open>util.equal\<close>. Both \<^verbatim>\<open>ai\<close> and \<^verbatim>\<open>bi\<close> are read from \<^verbatim>\<open>a\<close>; both are declared
  \<^verbatim>\<open>const\<close> in a strict-mode file, so the folding assignment \<^verbatim>\<open>ai |= 0x20\<close> raises a
  TypeError when it is executed. The loop runs from the last index down to 0; the
  argument of \<open>equal_loop\<close> is the number of indices still to visit.
\<close>

fun equal_loop :: "string \<Rightarrow> string \<Rightarrow> nat \<Rightarrow> error + bool" where
  "equal_loop a b 0 = Inr True"
| "equal_loop a b (Suc i) =
     (let ai = (of_char (a ! i) :: nat);
          bi = (of_char (a ! i) :: nat)
      in if 0x41 \<le> ai \<and> ai \<le> 0x5a then Inl TypeError
         else if 0x41 \<le> bi \<and> bi \<le> 0x5a then Inl TypeError
         else if ai \<noteq> bi then Inr False
         else equal_loop a b i)"

definition equal :: "string \<Rightarrow> string \<Rightarrow> error + bool" where
  "equal a b = (if length a \<noteq> length b then Inr False else equal_loop a b (length a))"

definition isFQDN :: "string \<Rightarrow> bool" where
  "isFQDN s = (if length s = 0 then False else s ! (length s - 1) = CHR ''.'')"

text \<open>\<^verbatim>\<open>util.fqdn\<close>: a name that is not fully qualified is returned as it is, a fully
  qualified one loses its last character (\<^verbatim>\<open>s.slice(0, -1)\<close>).\<close>

definition fqdn :: "string \<Rightarrow> string" where
  "fqdn s = (if \<not> isFQDN s then s else take (length s - 1) s)"

subsection \<open>Constants\<close>

text \<open>Modelled from the spec: \<^verbatim>\<open>lib/constants.js\<close> is not part of the sources at hand. The
  record types and classes are the ones the spec names in its section 6, with their
  RFC 1035 / RFC 6891 / RFC 2845 numbers; the sizes and flag bits are the literal values
  of section 6.\<close>

definition types_UNKNOWN :: nat where "types_UNKNOWN = 0"
definition types_A :: nat where "types_A = 1"
definition types_NS :: nat where "types_NS = 2"
definition types_CNAME :: nat where "types_CNAME = 5"
definition types_SIG :: nat where "types_SIG = 24"
definition types_OPT :: nat where "types_OPT = 41"
definition types_TSIG :: nat where "types_TSIG = 250"
definition types_ANY :: nat where "types_ANY = 255"
definition classes_IN :: nat where "classes_IN = 1"
definition classes_ANY :: nat where "classes_ANY = 255"
definition MAX_UDP_SIZE :: nat where "MAX_UDP_SIZE = 512"
definition flags_TC :: nat where "flags_TC = 0x0200"

subsection \<open>lib/encoding.js: reading a name\<close>

definition ASCII :: "char list" where
  "ASCII =
     ''        '' @ ''        '' @ ''        '' @ ''        '' @
     '' !'' @ [CHR 0x22] @ ''#$%&'' @ [CHR 0x27] @ ''()*+,-./'' @
     ''01234567'' @ ''89:;<=>?'' @
     ''@ABCDEFG'' @ ''HIJKLMNO'' @ ''PQRSTUVW'' @ ''XYZ['' @ [CHR 0x5c] @ '']^_'' @
     ''`abcdefg'' @ ''hijklmno'' @ ''pqrstuvw'' @ ''xyz{|}~ ''"

definition DIGITS :: "char list" where
  "DIGITS = ''0123456789''"

text \<open>\<^verbatim>\<open>toDDD\<close>: the decimal digits of an octet, padded to three; a value with more
  than three digits takes the \<^verbatim>\<open>default\<close> branch and throws.\<close>

definition toDDD :: "nat \<Rightarrow> error + string" where
  "toDDD b =
     (if b < 10 then Inr [CHR ''0'', CHR ''0'', DIGITS ! b]
      else if b < 100 then Inr [CHR ''0'', DIGITS ! (b div 10), DIGITS ! (b mod 10)]
      else if b < 1000 then Inr [DIGITS ! (b div 100), DIGITS ! (b div 10 mod 10), DIGITS ! (b mod 10)]
      else Inl Error)"

text \<open>The \<^verbatim>\<open>switch (b)\<close> in the label loop of \<^verbatim>\<open>readName\<close>: the text appended to the
  name for the octet \<open>b\<close> and the amount added to \<^verbatim>\<open>max\<close>.\<close>

definition reserved_octet :: "nat \<Rightarrow> bool" where
  "reserved_octet b = (b = 0x2e \<or> b = 0x28 \<or> b = 0x29 \<or> b = 0x3b \<or> b = 0x20 \<or> b = 0x40
     \<or> b = 0x22 \<or> b = 0x5c)"

definition escape_octet :: "nat \<Rightarrow> error + (string \<times> nat)" where
  "escape_octet b =
     (if reserved_octet b then Inr ([CHR 0x5c, ASCII ! b], 1)
      else if b < 0x20 \<or> b > 0x7e then ebind (toDDD b) (\<lambda>d. Inr (CHR 0x5c # d, 3))
      else Inr ([ASCII ! b], 0))"

text \<open>The inner \<^verbatim>\<open>for (let j = off; j < off + c; j++)\<close> of \<^verbatim>\<open>readName\<close>: \<open>off\<close> is the
  start of the label (the offset the error carries), \<open>j\<close> the octet being read and the
  \<open>nat\<close> argument the number of octets still to read.\<close>

fun readName_label :: "buffer \<Rightarrow> nat \<Rightarrow> nat \<Rightarrow> nat \<Rightarrow> string \<Rightarrow> nat \<Rightarrow> error + (string \<times> nat)" where
  "readName_label data off j 0 name mx = Inr (name, mx)"
| "readName_label data off j (Suc k) name mx =
     ebind (escape_octet (data ! j)) (\<lambda>(s, inc).
       if length (name @ s) \<ge> mx + inc then Inl (EncodingError off ''Max name length exceeded'')
       else readName_label data off (j + 1) k (name @ s) (mx + inc))"

text \<open>The outer \<^verbatim>\<open>for (;;)\<close> of \<^verbatim>\<open>readName\<close>. The state is \<open>(off, name, res, max, ptr)\<close>;
  the result is that state at the \<^verbatim>\<open>break\<close> on a zero octet, or the error thrown.\<close>

function readName_loop ::
  "buffer \<Rightarrow> nat \<Rightarrow> string \<Rightarrow> nat \<Rightarrow> nat \<Rightarrow> nat \<Rightarrow> error + (nat \<times> string \<times> nat \<times> nat \<times> nat)" where
  "readName_loop data off name res mx ptr =
     (if off \<ge> length data then Inl (EncodingError off ''EOF'')
      else
        let c = data ! off; off1 = off + 1 in
        if c = 0x00 then Inr (off1, name, res, mx, ptr)
        else if c AND 0xc0 = 0x00 then
          (if off1 + c > length data then Inl (EncodingError off1 ''EOF'')
           else
             (case readName_label data off1 off1 c name mx of
                Inl e \<Rightarrow> Inl e
              | Inr (name', mx') \<Rightarrow> readName_loop data (off1 + c) (name' @ ''.'') res mx' ptr))
        else if c AND 0xc0 = 0xc0 then
          (if off1 \<ge> length data then Inl (EncodingError off1 ''EOF'')
           else
             let c1 = data ! off1; off2 = off1 + 1;
                 res' = (if ptr = 0 then off2 else res);
                 ptr' = ptr + 1
             in if ptr' > 10 then Inl (EncodingError off2 ''Too many pointers'')
                else readName_loop data (push_bit 8 (c XOR 0xc0) OR c1) name res' mx ptr')
        else Inl (EncodingError off1 ''Bad character''))"
  by pat_completeness auto
termination
  by (relation "measures [\<lambda>(data, off, name, res, mx, ptr). 11 - ptr,
                          \<lambda>(data, off, name, res, mx, ptr). length data - off]") auto

declare readName_loop.simps [simp del]

definition readName :: "buffer \<Rightarrow> nat \<Rightarrow> error + (nat \<times> string)" where
  "readName data off =
     (case readName_loop data off [] 0 255 0 of
        Inl e \<Rightarrow> Inl e
      | Inr (off', name, res, mx, ptr) \<Rightarrow>
          let res' = (if ptr = 0 then off' else res);
              name' = (if length name = 0 then ''.'' else name)
          in if length name' \<ge> mx then Inl (EncodingError off' ''Max name length exceeded'')
             else Inr (res', name'))"

subsection \<open>lib/wire.js: the data model\<close>

text \<open>An EDNS option. Only \<^verbatim>\<open>UNKNOWNOption\<close> (raw octets) is modelled.\<close>

datatype OptionData = UNKNOWNOption (od_data: buffer)

record Option =
  opt_code :: nat
  opt_option :: OptionData

text \<open>Record data. The registry of \<^verbatim>\<open>wire.js\<close> has some eighty classes; the ones the
  message codec itself inspects are modelled, each with the fields of its constructor.
  The address of an \<^verbatim>\<open>ARecord\<close> is kept as its four octets.\<close>

datatype RecordData =
    UNKNOWNRecord (rd_data: buffer)
  | ARecord (address: buffer)
  | NSRecord (ns: string)
  | CNAMERecord (target: string)
  | SIGRecord (typeCovered: nat) (sig_algorithm: nat) (labels: nat) (origTTL: nat)
      (expiration: nat) (inception: nat) (keyTag: nat) (signerName: string) (signature: buffer)
  | OPTRecord (rd_options: "Option list")
  | TSIGRecord (algorithm: string) (timeSigned: nat) (fudge: nat) (mac: buffer)
      (origID: nat) (tsig_error: nat) (other: buffer)

record Record =
  rr_name :: string
  rr_type :: nat
  rr_class :: nat
  rr_ttl :: nat
  rr_data :: RecordData

record Question =
  qs_name :: string
  qs_type :: nat
  qs_class :: nat

record EDNS =
  e_enabled :: bool
  e_size :: nat
  e_code :: nat
  e_version :: nat
  e_flags :: nat
  e_options :: "OptionData list"

record Message =
  m_id :: nat
  m_flags :: nat
  m_opcode :: nat
  m_code :: nat
  question :: "Question list"
  answer :: "Record list"
  authority :: "Record list"
  additional :: "Record list"
  edns :: EDNS
  tsig :: "Record option"
  sig0 :: "Record option"
  m_size :: nat
  trailing :: buffer

text \<open>The constructors \<^verbatim>\<open>new EDNS()\<close> and \<^verbatim>\<open>new Message()\<close>.\<close>

definition new_EDNS :: EDNS where
  "new_EDNS = \<lparr>e_enabled = False, e_size = MAX_UDP_SIZE, e_code = 0, e_version = 0,
               e_flags = 0, e_options = []\<rparr>"

definition new_Message :: Message where
  "new_Message = \<lparr>m_id = 0, m_flags = 0, m_opcode = 0, m_code = 0, question = [],
     answer = [], authority = [], additional = [], edns = new_EDNS, tsig = None,
     sig0 = None, m_size = 0, trailing = []\<rparr>"

subsection \<open>Message.collect\<close>

text \<open>The loop of \<^verbatim>\<open>collect\<close> over \<^verbatim>\<open>this.answer\<close>, with the running \<^verbatim>\<open>target\<close> and
  \<^verbatim>\<open>result\<close>. A CNAME whose data has no \<^verbatim>\<open>target\<close> field leaves \<^verbatim>\<open>target\<close>
  undefined (\<open>None\<close>), and \<^verbatim>\<open>util.equal\<close> then fails on \<^verbatim>\<open>b.length\<close>.\<close>

fun collect_loop :: "Record list \<Rightarrow> nat \<Rightarrow> string option \<Rightarrow> Record list \<Rightarrow> error + Record list" where
  "collect_loop [] ty tgt result = Inr result"
| "collect_loop (rr # rrs) ty tgt result =
     (case tgt of
        None \<Rightarrow> Inl TypeError
      | Some t \<Rightarrow>
          ebind (equal (rr_name rr) t) (\<lambda>eq.
            if \<not> eq then collect_loop rrs ty tgt result
            else if rr_type rr = types_CNAME then
              collect_loop rrs ty
                (case rr_data rr of CNAMERecord t' \<Rightarrow> Some t' | _ \<Rightarrow> None)
                (if ty = types_ANY \<or> ty = types_CNAME then result @ [rr] else result)
            else if ty \<noteq> types_ANY \<and> rr_type rr \<noteq> ty then collect_loop rrs ty tgt result
            else collect_loop rrs ty tgt (result @ [rr])))"

definition collect :: "Message \<Rightarrow> string \<Rightarrow> nat \<Rightarrow> error + Record list" where
  "collect msg name ty =
     (if ty AND 0xffff \<noteq> ty then Inl AssertionError
      else collect_loop (answer msg) ty (Some (fqdn name)) [])"

lemmas consts_defs = types_UNKNOWN_def types_A_def types_NS_def types_CNAME_def
  types_SIG_def types_OPT_def types_TSIG_def types_ANY_def classes_IN_def classes_ANY_def
  MAX_UDP_SIZE_def flags_TC_def

subsection \<open>Reachable states of the readName loop; the octets a name stands for\<close>

text \<open>The states the loop of \<^verbatim>\<open>readName\<close> passes through: \<open>start\<close> is the state it is
  entered with, \<open>label\<close> one iteration that reads a label, \<open>pointer\<close> one that follows a
  pointer. The last component counts the pointers followed so far.\<close>

inductive readName_reach ::
  "buffer \<Rightarrow> nat \<times> string \<times> nat \<times> nat \<times> nat \<Rightarrow> nat \<times> string \<times> nat \<times> nat \<times> nat \<Rightarrow> bool"
  for data :: buffer where
  start: "readName_reach data s s"
| label: "readName_reach data s (off, name, res, mx, ptr) \<Longrightarrow> off < length data \<Longrightarrow>
     data ! off \<noteq> 0 \<Longrightarrow> data ! off AND 0xc0 = 0 \<Longrightarrow> off + 1 + data ! off \<le> length data \<Longrightarrow>
     readName_label data (off + 1) (off + 1) (data ! off) name mx = Inr (name', mx') \<Longrightarrow>
     readName_reach data s (off + 1 + data ! off, name' @ ''.'', res, mx', ptr)"
| pointer: "readName_reach data s (off, name, res, mx, ptr) \<Longrightarrow> off + 1 < length data \<Longrightarrow>
     data ! off AND 0xc0 = 0xc0 \<Longrightarrow> ptr < 10 \<Longrightarrow>
     readName_reach data s
       (push_bit 8 (data ! off XOR 0xc0) OR data ! (off + 1), name,
        (if ptr = 0 then off + 2 else res), mx, ptr + 1)"

definition loop_at ::
  "buffer \<Rightarrow> nat \<times> string \<times> nat \<times> nat \<times> nat \<Rightarrow> error + (nat \<times> string \<times> nat \<times> nat \<times> nat)" where
  "loop_at data s = (case s of (off, name, res, mx, ptr) \<Rightarrow> readName_loop data off name res mx ptr)"

definition isDigitChar :: "char \<Rightarrow> bool" where
  "isDigitChar c = (0x30 \<le> (of_char c :: nat) \<and> (of_char c :: nat) \<le> 0x39)"

text \<open>The number of octets a presentation-format name stands for: an escape
  (a backslash and three digits, or a backslash and one other character) counts as one
  octet, as does every other character, the separating dots included. For a name other
  than the root this is its length on the wire less the final zero octet.\<close>

fun raw_skip :: "nat \<Rightarrow> string \<Rightarrow> nat" where
  "raw_skip k [] = 0"
| "raw_skip (Suc k) (c # cs) = raw_skip k cs"
| "raw_skip 0 (c # cs) =
     (if c = CHR 0x5c
      then 1 + raw_skip (case cs of [] \<Rightarrow> 0 | d # ds \<Rightarrow> if isDigitChar d then 3 else 1) cs
      else 1 + raw_skip 0 cs)"

definition raw_length :: "string \<Rightarrow> nat" where
  "raw_length name = raw_skip 0 name"

definition escaped_unit :: "string \<Rightarrow> bool" where
  "escaped_unit u =
     ((\<exists>c. u = [c] \<and> c \<noteq> CHR 0x5c)
      \<or> (\<exists>x. u = [CHR 0x5c, x] \<and> \<not> isDigitChar x)
      \<or> (\<exists>d1 d2 d3. u = [CHR 0x5c, d1, d2, d3] \<and> isDigitChar d1))"

definition name_inv :: "string \<Rightarrow> nat \<Rightarrow> bool" where
  "name_inv name mx = (\<exists>us. name = concat us \<and> list_all escaped_unit us
      \<and> length name + 255 = length us + mx)"

subsection \<open>The reader\<close>

text \<open>\<^verbatim>\<open>bufio\<close>'s \<^verbatim>\<open>BufferReader\<close> (a dependency of the repository): a buffer and a
  read offset. Every read first checks that the octets it needs are there and throws an
  \<^verbatim>\<open>EncodingError\<close> at the current offset otherwise.\<close>

record BufferReader =
  br_data :: buffer
  br_offset :: nat

definition bio_read :: "buffer \<Rightarrow> BufferReader" where
  "bio_read data = \<lparr>br_data = data, br_offset = 0\<rparr>"

definition br_left :: "BufferReader \<Rightarrow> nat" where
  "br_left br = length (br_data br) - br_offset br"

definition br_check :: "BufferReader \<Rightarrow> nat \<Rightarrow> error + unit" where
  "br_check br n =
     (if br_offset br + n > length (br_data br)
      then Inl (EncodingError (br_offset br) ''Out of bounds read'') else Inr ())"

definition readU8 :: "BufferReader \<Rightarrow> error + (nat \<times> BufferReader)" where
  "readU8 br = ebind (br_check br 1) (\<lambda>_.
     Inr (br_data br ! br_offset br, br\<lparr>br_offset := br_offset br + 1\<rparr>))"

definition readU16BE :: "BufferReader \<Rightarrow> error + (nat \<times> BufferReader)" where
  "readU16BE br = ebind (br_check br 2) (\<lambda>_.
     Inr (br_data br ! br_offset br * 0x100 + br_data br ! (br_offset br + 1),
          br\<lparr>br_offset := br_offset br + 2\<rparr>))"

definition readU32BE :: "BufferReader \<Rightarrow> error + (nat \<times> BufferReader)" where
  "readU32BE br = ebind (br_check br 4) (\<lambda>_.
     Inr (br_data br ! br_offset br * 0x1000000 + br_data br ! (br_offset br + 1) * 0x10000
            + br_data br ! (br_offset br + 2) * 0x100 + br_data br ! (br_offset br + 3),
          br\<lparr>br_offset := br_offset br + 4\<rparr>))"

definition readBytes :: "BufferReader \<Rightarrow> nat \<Rightarrow> error + (buffer \<times> BufferReader)" where
  "readBytes br n = ebind (br_check br n) (\<lambda>_.
     Inr (take n (drop (br_offset br) (br_data br)), br\<lparr>br_offset := br_offset br + n\<rparr>))"

text \<open>\<^verbatim>\<open>readNameBR\<close> of \<^verbatim>\<open>lib/encoding.js\<close>.\<close>

definition readNameBR :: "BufferReader \<Rightarrow> error + (string \<times> BufferReader)" where
  "readNameBR br = ebind (readName (br_data br) (br_offset br)) (\<lambda>(off, name).
     Inr (name, br\<lparr>br_offset := off\<rparr>))"

subsection \<open>Reading record data\<close>

text \<open>Modelled from the spec: \<^verbatim>\<open>readIP\<close> and \<^verbatim>\<open>writeIP\<close> are imported by \<^verbatim>\<open>wire.js\<close> from
  \<^verbatim>\<open>encoding.js\<close>, which does not define them in the sources at hand; an inet4 field is
  its four octets (spec, section 4.3).\<close>

definition readIP :: "BufferReader \<Rightarrow> nat \<Rightarrow> error + (buffer \<times> BufferReader)" where
  "readIP br n = readBytes br n"

definition UNKNOWNRecord_read :: "BufferReader \<Rightarrow> error + (RecordData \<times> BufferReader)" where
  "UNKNOWNRecord_read br = ebind (readBytes br (br_left br)) (\<lambda>(d, br). Inr (UNKNOWNRecord d, br))"

definition ARecord_read :: "BufferReader \<Rightarrow> error + (RecordData \<times> BufferReader)" where
  "ARecord_read br = ebind (readIP br 4) (\<lambda>(a, br). Inr (ARecord a, br))"

definition NSRecord_read :: "BufferReader \<Rightarrow> error + (RecordData \<times> BufferReader)" where
  "NSRecord_read br = ebind (readNameBR br) (\<lambda>(n, br). Inr (NSRecord n, br))"

definition CNAMERecord_read :: "BufferReader \<Rightarrow> error + (RecordData \<times> BufferReader)" where
  "CNAMERecord_read br = ebind (readNameBR br) (\<lambda>(n, br). Inr (CNAMERecord n, br))"

definition SIGRecord_read :: "BufferReader \<Rightarrow> error + (RecordData \<times> BufferReader)" where
  "SIGRecord_read br =
     ebind (readU16BE br) (\<lambda>(tc, br).
     ebind (readU8 br) (\<lambda>(alg, br).
     ebind (readU8 br) (\<lambda>(lbl, br).
     ebind (readU32BE br) (\<lambda>(ot, br).
     ebind (readU32BE br) (\<lambda>(ex, br).
     ebind (readU32BE br) (\<lambda>(inc, br).
     ebind (readU16BE br) (\<lambda>(kt, br).
     ebind (readNameBR br) (\<lambda>(sn, br).
     ebind (readBytes br (br_left br)) (\<lambda>(sg, br).
       Inr (SIGRecord tc alg lbl ot ex inc kt sn sg, br))))))))))"

definition TSIGRecord_read :: "BufferReader \<Rightarrow> error + (RecordData \<times> BufferReader)" where
  "TSIGRecord_read br =
     ebind (readNameBR br) (\<lambda>(alg, br).
     ebind (readU16BE br) (\<lambda>(hi, br).
     ebind (readU32BE br) (\<lambda>(lo, br).
     ebind (readU16BE br) (\<lambda>(fu, br).
     ebind (readU16BE br) (\<lambda>(ml, br).
     ebind (readBytes br ml) (\<lambda>(mc, br).
     ebind (readU16BE br) (\<lambda>(oid, br).
     ebind (readU16BE br) (\<lambda>(er, br).
     ebind (readU16BE br) (\<lambda>(ol, br).
     ebind (readBytes br ol) (\<lambda>(ot, br).
       Inr (TSIGRecord alg (hi * 0x100000000 + lo) fu mc oid er ot, br)))))))))))"

text \<open>Modelled from the spec: the option codes of \<^verbatim>\<open>constants.js\<close> (spec, section 6:
  LLQ, UL, NSID, DAU, DHU, N3U, SUBNET, EXPIRE, COOKIE, TCPKEEPALIVE, PADDING, CHAIN,
  KEYTAG and the LOCAL range), with their assigned numbers. \<^verbatim>\<open>readOption\<close> hands code 0
  (RESERVED) and every code outside this registry to \<^verbatim>\<open>UNKNOWNOption\<close>; the typed options
  are outside this development and reported as \<open>Unmodelled\<close>.\<close>

definition typed_option_code :: "nat \<Rightarrow> bool" where
  "typed_option_code c = (c \<in> set [1, 2, 3, 5, 6, 7, 8, 9, 10, 11, 12, 13, 14]
     \<or> (65001 \<le> c \<and> c \<le> 65534))"

definition readOption :: "nat \<Rightarrow> BufferReader \<Rightarrow> error + (OptionData \<times> BufferReader)" where
  "readOption c br =
     ebind (readU16BE br) (\<lambda>(sz, br).
       let data = br_data br; offset = br_offset br; len = offset + sz in
       if \<not> len \<le> length data then Inl AssertionError
       else
         let cbr = (bio_read (take len data))\<lparr>br_offset := offset\<rparr> in
         ebind (if typed_option_code c then Inl (Unmodelled c)
                else ebind (readBytes cbr (br_left cbr)) (\<lambda>(d, cbr). Inr (UNKNOWNOption d, cbr)))
           (\<lambda>(opt, cbr). Inr (opt, br\<lparr>br_offset := br_offset cbr\<rparr>)))"

definition Option_read :: "BufferReader \<Rightarrow> error + (Option \<times> BufferReader)" where
  "Option_read br =
     ebind (readU16BE br) (\<lambda>(c, br).
     ebind (readOption c br) (\<lambda>(opt, br).
       Inr (\<lparr>opt_code = c, opt_option = opt\<rparr>, br)))"

text \<open>\<^verbatim>\<open>OPTRecord.read\<close>: \<^verbatim>\<open>while (br.left()) this.options.push(Option.read(br))\<close>.\<close>

function OPTRecord_loop :: "BufferReader \<Rightarrow> Option list \<Rightarrow> error + (Option list \<times> BufferReader)" where
  "OPTRecord_loop br opts =
     (if br_left br = 0 then Inr (opts, br)
      else (case Option_read br of
              Inl e \<Rightarrow> Inl e
            | Inr (opt, br') \<Rightarrow> OPTRecord_loop br' (opts @ [opt])))"
  by pat_completeness auto
termination
proof (relation "measure (\<lambda>(br, opts). br_left br)")
  show "wf (measure (\<lambda>(br, opts). br_left br))" by simp
next
  fix br :: BufferReader and opts :: "Option list" and x opt br'
  assume nz: "br_left br \<noteq> 0" and rd: "Option_read br = Inr x" and x: "(opt, br') = x"
  from rd x have "Option_read br = Inr (opt, br')" by simp
  then have "br_data br' = br_data br \<and> br_offset br < br_offset br'
      \<and> br_offset br' \<le> length (br_data br)"
    by (auto simp add: Option_read_def readOption_def readU16BE_def readBytes_def br_check_def
        br_left_def bio_read_def ebind_def Let_def split: if_splits)
  then show "((br', opts @ [opt]), (br, opts)) \<in> measure (\<lambda>(br, opts). br_left br)"
    by (auto simp add: br_left_def)
qed

declare OPTRecord_loop.simps [simp del]

definition OPTRecord_read :: "BufferReader \<Rightarrow> error + (RecordData \<times> BufferReader)" where
  "OPTRecord_read br = ebind (OPTRecord_loop br []) (\<lambda>(opts, br). Inr (OPTRecord opts, br))"

text \<open>Modelled from the spec: the type numbers of the record registry (spec, section 6,
  with their assigned numbers), \<^verbatim>\<open>constants.js\<close> being absent. The \<^verbatim>\<open>switch\<close> of \<^verbatim>\<open>read\<close> has one
  case for each; a type outside the registry takes the \<^verbatim>\<open>default\<close> branch.\<close>

definition registry_types :: "nat list" where
  "registry_types =
     [0..<40] @ [41..<54] @ [55..<63] @ [99..<110] @ [249, 250, 255] @ [256..<260]
       @ [32768, 32769]"

text \<open>The \<^verbatim>\<open>switch (type)\<close> of \<^verbatim>\<open>read\<close>, on the child reader. The record classes
  outside this development are reported as \<open>Unmodelled\<close>.\<close>

definition read_switch :: "nat \<Rightarrow> BufferReader \<Rightarrow> error + (RecordData \<times> BufferReader)" where
  "read_switch ty cbr =
     (if ty = types_UNKNOWN then UNKNOWNRecord_read cbr
      else if ty = types_A then ARecord_read cbr
      else if ty = types_NS then NSRecord_read cbr
      else if ty = types_CNAME then CNAMERecord_read cbr
      else if ty = types_SIG then SIGRecord_read cbr
      else if ty = types_OPT then OPTRecord_read cbr
      else if ty = types_TSIG then TSIGRecord_read cbr
      else if ty \<in> set registry_types then Inl (Unmodelled ty)
      else UNKNOWNRecord_read cbr)"

text \<open>\<^verbatim>\<open>read(type, br)\<close>: the length prefix, the child reader over
  \<^verbatim>\<open>data.slice(0, offset + size)\<close> placed at the parent's offset, the type's parser, and
  \<^verbatim>\<open>br.offset = cbr.offset\<close>.\<close>

definition read :: "nat \<Rightarrow> BufferReader \<Rightarrow> error + (RecordData \<times> BufferReader)" where
  "read ty br =
     ebind (readU16BE br) (\<lambda>(sz, br).
       let data = br_data br; offset = br_offset br; len = offset + sz in
       if \<not> len \<le> length data then Inl AssertionError
       else
         let cdata = take len data;
             cbr = (bio_read cdata)\<lparr>br_offset := offset\<rparr>
         in ebind (read_switch ty cbr) (\<lambda>(rd, cbr).
              Inr (rd, br\<lparr>br_offset := br_offset cbr\<rparr>)))"

subsection \<open>Record and Question\<close>

definition Record_read :: "BufferReader \<Rightarrow> error + (Record \<times> BufferReader)" where
  "Record_read br =
     ebind (readNameBR br) (\<lambda>(n, br).
     ebind (readU16BE br) (\<lambda>(ty, br).
     ebind (readU16BE br) (\<lambda>(cl, br).
     ebind (readU32BE br) (\<lambda>(tt, br).
     ebind (read ty br) (\<lambda>(rd, br).
       Inr (\<lparr>rr_name = n, rr_type = ty, rr_class = cl, rr_ttl = tt, rr_data = rd\<rparr>, br))))))"

definition isOPT :: "Record \<Rightarrow> bool" where
  "isOPT rr = (rr_type rr = types_OPT)"

definition isTSIG :: "Record \<Rightarrow> bool" where
  "isTSIG rr = (rr_type rr = types_TSIG \<and> rr_class rr = classes_ANY)"

text \<open>\<^verbatim>\<open>isSIG0\<close>; \<^verbatim>\<open>this.data.typeCovered\<close> is undefined, and the comparison false,
  for data that is not a SIG.\<close>

definition isSIG0 :: "Record \<Rightarrow> bool" where
  "isSIG0 rr = (rr_name rr = ''.'' \<and> rr_type rr = types_SIG \<and> rr_class rr = classes_ANY
     \<and> rr_ttl rr = 0
     \<and> (case rr_data rr of SIGRecord tc _ _ _ _ _ _ _ _ \<Rightarrow> tc = 0 | _ \<Rightarrow> False))"

text \<open>\<^verbatim>\<open>new Question()\<close> (no arguments) and \<^verbatim>\<open>Question.read\<close>.\<close>

definition new_Question :: Question where
  "new_Question = \<lparr>qs_name = fqdn '''', qs_type = types_ANY, qs_class = classes_IN\<rparr>"

definition Question_read :: "BufferReader \<Rightarrow> error + (Question \<times> BufferReader)" where
  "Question_read br =
     ebind (readNameBR br) (\<lambda>(n, br).
       let qs = new_Question\<lparr>qs_name := n\<rparr> in
       if br_left br = 0 then Inr (qs, br)
       else ebind (readU16BE br) (\<lambda>(ty, br).
         let qs = qs\<lparr>qs_type := ty\<rparr> in
         if br_left br = 0 then Inr (qs, br)
         else ebind (readU16BE br) (\<lambda>(cl, br). Inr (qs\<lparr>qs_class := cl\<rparr>, br))))"

subsection \<open>EDNS\<close>

text \<open>\<^verbatim>\<open>EDNS.setRecord\<close>. The \<^verbatim>\<open>for ... of rd.options\<close> fails on data without an
  \<^verbatim>\<open>options\<close> array.\<close>

definition setRecord :: "EDNS \<Rightarrow> Record \<Rightarrow> error + EDNS" where
  "setRecord e rr =
     (if rr_type rr \<noteq> types_OPT then Inl AssertionError
      else (case rr_data rr of
              OPTRecord opts \<Rightarrow>
                Inr (e\<lparr>e_enabled := True, e_size := rr_class rr,
                       e_code := drop_bit 24 (rr_ttl rr) AND 0xff,
                       e_version := drop_bit 16 (rr_ttl rr) AND 0xff,
                       e_flags := rr_ttl rr AND 0xffff,
                       e_options := map opt_option opts\<rparr>)
            | _ \<Rightarrow> Inl TypeError))"

subsection \<open>Message.read\<close>

text \<open>A loop of \<^verbatim>\<open>Message.read\<close> either leaves the function (\<^verbatim>\<open>return this\<close>) or
  falls through to the statement after it.\<close>

datatype ('r, 'c) flow = Return 'r | Next 'c

text \<open>\<^verbatim>\<open>a & ~m\<close> on non-negative numbers.\<close>

definition and_not :: "nat \<Rightarrow> nat \<Rightarrow> nat" where
  "and_not a m = nat (int a AND NOT (int m))"

definition getFlag :: "Message \<Rightarrow> nat \<Rightarrow> bool" where
  "getFlag msg b = (m_flags msg AND b \<noteq> 0)"

definition tc :: "Message \<Rightarrow> bool" where
  "tc msg = getFlag msg flags_TC"

fun read_question :: "nat \<Rightarrow> Message \<Rightarrow> BufferReader \<Rightarrow> error + (Message, Message \<times> BufferReader) flow" where
  "read_question 0 msg br = Inr (Next (msg, br))"
| "read_question (Suc n) msg br =
     (if br_left br = 0 then Inr (Return msg)
      else ebind (Question_read br) (\<lambda>(qs, br).
             read_question n (msg\<lparr>question := question msg @ [qs]\<rparr>) br))"

fun read_answer :: "nat \<Rightarrow> Message \<Rightarrow> BufferReader \<Rightarrow> error + (Message, Message \<times> BufferReader) flow" where
  "read_answer 0 msg br = Inr (Next (msg, br))"
| "read_answer (Suc n) msg br =
     (if tc msg \<and> br_left br = 0 then Inr (Return msg)
      else ebind (Record_read br) (\<lambda>(rr, br).
             read_answer n (msg\<lparr>answer := answer msg @ [rr]\<rparr>) br))"

fun read_authority :: "nat \<Rightarrow> Message \<Rightarrow> BufferReader \<Rightarrow> error + (Message, Message \<times> BufferReader) flow" where
  "read_authority 0 msg br = Inr (Next (msg, br))"
| "read_authority (Suc n) msg br =
     (if tc msg \<and> br_left br = 0 then Inr (Return msg)
      else ebind (Record_read br) (\<lambda>(rr, br).
             read_authority n (msg\<lparr>authority := authority msg @ [rr]\<rparr>) br))"

text \<open>The body of the additional loop for one record that has been read.\<close>

definition place_additional :: "Message \<Rightarrow> Record \<Rightarrow> error + Message" where
  "place_additional msg rr =
     (if isOPT rr then
        ebind (setRecord (edns msg) rr) (\<lambda>e.
          Inr (msg\<lparr>edns := e, m_code := (m_code msg AND 0x0f) OR push_bit 4 (e_code e)\<rparr>))
      else if isTSIG rr then Inr (msg\<lparr>tsig := Some rr\<rparr>)
      else if isSIG0 rr then Inr (msg\<lparr>sig0 := Some rr\<rparr>)
      else Inr (msg\<lparr>additional := additional msg @ [rr]\<rparr>))"

fun read_additional :: "nat \<Rightarrow> Message \<Rightarrow> BufferReader \<Rightarrow> error + (Message, Message \<times> BufferReader) flow" where
  "read_additional 0 msg br = Inr (Next (msg, br))"
| "read_additional (Suc n) msg br =
     (if br_left br = 0 then Inr (Return msg)
      else ebind (Record_read br) (\<lambda>(rr, br).
           ebind (place_additional msg rr) (\<lambda>msg.
             read_additional n msg br)))"

text \<open>\<^verbatim>\<open>Message.read\<close>, on the receiver \<open>msg\<close>, in four parts: the six header words;
  the assignments from the header; the question, answer and authority loops; and the
  additional loop with what follows it.\<close>

definition read_counts ::
  "BufferReader \<Rightarrow> error + ((nat \<times> nat \<times> nat \<times> nat \<times> nat \<times> nat) \<times> BufferReader)" where
  "read_counts br =
     ebind (readU16BE br) (\<lambda>(ident, br).
     ebind (readU16BE br) (\<lambda>(bits, br).
     ebind (readU16BE br) (\<lambda>(qdcount, br).
     ebind (readU16BE br) (\<lambda>(ancount, br).
     ebind (readU16BE br) (\<lambda>(nscount, br).
     ebind (readU16BE br) (\<lambda>(arcount, br).
       Inr ((ident, bits, qdcount, ancount, nscount, arcount), br)))))))"

definition set_header :: "Message \<Rightarrow> nat \<Rightarrow> nat \<Rightarrow> Message" where
  "set_header msg ident bits =
     msg\<lparr>m_id := ident,
         m_flags := and_not (and_not bits (push_bit 11 0x0f)) 0x0f,
         m_opcode := drop_bit 11 bits AND 0x0f,
         m_code := bits AND 0x0f\<rparr>"

definition read_sections ::
  "nat \<Rightarrow> nat \<Rightarrow> nat \<Rightarrow> Message \<Rightarrow> BufferReader \<Rightarrow> error + (Message, Message \<times> BufferReader) flow" where
  "read_sections qdcount ancount nscount msg br =
     ebind (read_question qdcount msg br) (\<lambda>f. case f of Return m \<Rightarrow> Inr (Return m) | Next (msg, br) \<Rightarrow>
     ebind (read_answer ancount msg br) (\<lambda>f. case f of Return m \<Rightarrow> Inr (Return m) | Next (msg, br) \<Rightarrow>
     read_authority nscount msg br))"

definition read_rest :: "nat \<Rightarrow> nat \<Rightarrow> Message \<Rightarrow> BufferReader \<Rightarrow> error + Message" where
  "read_rest arcount size0 msg br =
     ebind (read_additional arcount msg br) (\<lambda>f. case f of Return m \<Rightarrow> Inr m | Next (msg, br) \<Rightarrow>
       let msg = msg\<lparr>m_size := size0\<rparr> in
       if br_left br > 0
       then ebind (readBytes br (br_left br)) (\<lambda>(t, br). Inr (msg\<lparr>trailing := t\<rparr>))
       else Inr msg)"

definition Message_read :: "Message \<Rightarrow> BufferReader \<Rightarrow> error + Message" where
  "Message_read msg br =
     (let size0 = length (br_data br) in
      ebind (read_counts br) (\<lambda>((ident, bits, qdcount, ancount, nscount, arcount), br).
      ebind (read_sections qdcount ancount nscount (set_header msg ident bits) br)
        (\<lambda>f. case f of Return m \<Rightarrow> Inr m | Next (msg, br) \<Rightarrow> read_rest arcount size0 msg br)))"

text \<open>\<^verbatim>\<open>Message.decode(data)\<close>: a new message reads a new reader over the data.\<close>

definition Message_decode :: "buffer \<Rightarrow> error + Message" where
  "Message_decode data = Message_read new_Message (bio_read data)"

text \<open>The getters \<^verbatim>\<open>arcount\<close> and \<^verbatim>\<open>bodyLength\<close>.\<close>

definition arcount :: "Message \<Rightarrow> nat" where
  "arcount msg = length (additional msg) + (if e_enabled (edns msg) then 1 else 0)
     + (if tsig msg \<noteq> None then 1 else 0) + (if sig0 msg \<noteq> None then 1 else 0)"

definition bodyLength :: "Message \<Rightarrow> nat" where
  "bodyLength msg = length (answer msg) + length (authority msg) + arcount msg"

subsection \<open>Reader positions\<close>

text \<open>A read that succeeded left the buffer as it was and moved the offset forward,
  not beyond the end.\<close>

definition advances :: "BufferReader \<Rightarrow> BufferReader \<Rightarrow> bool" where
  "advances br br' = (br_data br' = br_data br \<and> br_offset br \<le> br_offset br'
     \<and> br_offset br' \<le> length (br_data br))"

subsection \<open>Fields the first three section loops leave alone; an example message\<close>






subsection \<open>lib/encoding.js: writing a name\<close>

text \<open>The two copying loops of the escape branch, \<^verbatim>\<open>for (j = i; j < nl - 1; j++) n[j] = n[j + 1]\<close>
  and \<^verbatim>\<open>for (j = i + 1; j < nl - 2; j++) n[j] = n[j + 2]\<close>: \<open>shift_loop n j c k\<close> runs
  \<open>c\<close> iterations from index \<open>j\<close>, copying from \<open>k\<close> places to the right.\<close>

fun shift_loop :: "buffer \<Rightarrow> nat \<Rightarrow> nat \<Rightarrow> nat \<Rightarrow> buffer" where
  "shift_loop n j 0 k = n"
| "shift_loop n j (Suc c) k = shift_loop (n[j := n ! (j + k)]) (j + 1) c k"

definition isDigit :: "nat \<Rightarrow> bool" where
  "isDigit ch = (ch \<ge> 0x30 \<and> ch - 0x30 \<le> 9)"

definition toByte :: "buffer \<Rightarrow> nat \<Rightarrow> nat" where
  "toByte n i = (n ! i - 0x30) * 100 + (n ! (i + 1) - 0x30) * 10 + (n ! (i + 2) - 0x30) * 1"

text \<open>The loop \<^verbatim>\<open>for (let j = begin; j < i; j++)\<close> that copies a label to the output:
  \<open>bytes\<close> are the octets \<open>n[begin..i)\<close>. Without a buffer (\<open>None\<close>) only the offset moves.\<close>

fun write_label :: "buffer option \<Rightarrow> nat \<Rightarrow> nat \<Rightarrow> buffer \<Rightarrow> error + (buffer option \<times> nat)" where
  "write_label data len off [] = Inr (data, off)"
| "write_label data len off (b # bs) =
     (if off + 1 > len then Inl (EncodingError off ''EOF'')
      else write_label (map_option (\<lambda>d. d[off := b]) data) len (off + 1) bs)"

text \<open>The variables of \<^verbatim>\<open>writeName\<close> that its main loop changes. \<^verbatim>\<open>pos\<close> and \<^verbatim>\<open>ptr\<close>
  start at \<open>-1\<close> and are set together, so they are one optional pair \<open>(ptr, pos)\<close>.\<close>

record wstate =
  w_n :: buffer
  w_nl :: nat
  w_off :: nat
  w_data :: "buffer option"
  w_name :: string
  w_map :: "(string \<rightharpoonup> nat) option"
  w_ptr :: "(nat \<times> nat) option"
  w_begin :: nat
  w_fresh :: bool
  w_escaped :: bool
  w_labels :: nat

text \<open>The escape branch (\<^verbatim>\<open>n[i] === 0x5c\<close>) up to its \<^verbatim>\<open>continue\<close>.\<close>

definition writeName_escape :: "nat \<Rightarrow> nat \<Rightarrow> wstate \<Rightarrow> error + wstate" where
  "writeName_escape len i s =
     (let n1 = shift_loop (w_n s) i (w_nl s - 1 - i) 1;
          nl1 = w_nl s - 1
      in if w_off s + 1 > len then Inl (EncodingError (w_off s) ''EOF'')
         else
           let (n3, nl3) =
                 (if i + 2 < nl1 \<and> isDigit (n1 ! i) \<and> isDigit (n1 ! (i + 1)) \<and> isDigit (n1 ! (i + 2))
                  then (shift_loop (n1[i := toByte n1 i mod 256]) (i + 1) (nl1 - 2 - (i + 1)) 2, nl1 - 2)
                  else (n1, nl1))
           in Inr (s\<lparr>w_n := n3, w_nl := nl3, w_escaped := True, w_fresh := False\<rparr>))"

text \<open>The label branch (\<^verbatim>\<open>n[i] === 0x2e\<close>). The Boolean of the result says whether the
  loop is left by the \<^verbatim>\<open>break\<close>.\<close>

definition writeName_dot :: "nat \<Rightarrow> bool \<Rightarrow> nat \<Rightarrow> wstate \<Rightarrow> error + (bool \<times> wstate)" where
  "writeName_dot len cmp i s =
     (if i > 0 \<and> w_n s ! (i - 1) = 0x2e \<and> \<not> w_escaped s
        then Inl (EncodingError (w_off s) ''Multiple dots'')
      else if i - w_begin s \<ge> push_bit 6 1 then Inl (EncodingError (w_off s) ''Bad top bits'')
      else if w_off s + 1 > len then Inl (EncodingError (w_off s) ''EOF'')
      else
        let data1 = map_option (\<lambda>d. d[w_off s := (i - w_begin s) AND 0xff]) (w_data s);
            offset = w_off s
        in ebind (write_label data1 len (w_off s + 1)
                    (take (i - w_begin s) (drop (w_begin s) (w_n s)))) (\<lambda>(data2, off2).
             let (name2, fresh2) =
                   (if cmp \<and> \<not> w_fresh s
                    then (map (\<lambda>b. char_of (b AND 0x7f)) (take (w_nl s) (w_n s)), True)
                    else (w_name s, w_fresh s));
                 s2 = s\<lparr>w_data := data2, w_off := off2, w_name := name2, w_fresh := fresh2\<rparr>;
                 next = (\<lambda>st. Inr (False,
                           st\<lparr>w_labels := w_labels st + 1, w_begin := i + 1, w_escaped := False\<rparr>))
             in (case w_map s2 of
                   None \<Rightarrow> next s2
                 | Some m \<Rightarrow>
                     let sfx = drop (w_begin s2) name2 in
                     if sfx = ''.'' then next s2
                     else (case m sfx of
                             None \<Rightarrow>
                               if offset < push_bit 13 2
                               then next (s2\<lparr>w_map := Some (m(sfx \<mapsto> offset))\<rparr>)
                               else next s2
                           | Some p \<Rightarrow>
                               if cmp \<and> w_ptr s2 = None
                               then Inr (True, s2\<lparr>w_ptr := Some (p, offset)\<rparr>)
                               else next s2))))"

text \<open>The main loop \<^verbatim>\<open>for (let i = 0; i < nl; i++)\<close>.\<close>

function writeName_loop :: "nat \<Rightarrow> bool \<Rightarrow> nat \<Rightarrow> wstate \<Rightarrow> error + wstate" where
  "writeName_loop len cmp i s =
     (if \<not> i < w_nl s then Inr s
      else if w_n s ! i = 0x5c then
        (case writeName_escape len i s of
           Inl e \<Rightarrow> Inl e
         | Inr s' \<Rightarrow> writeName_loop len cmp (i + 1) s')
      else if w_n s ! i = 0x2e then
        (case writeName_dot len cmp i s of
           Inl e \<Rightarrow> Inl e
         | Inr (brk, s') \<Rightarrow> if brk then Inr s' else writeName_loop len cmp (i + 1) s')
      else writeName_loop len cmp (i + 1) (s\<lparr>w_escaped := False\<rparr>))"
  by pat_completeness auto
termination
proof (relation "measure (\<lambda>(len, cmp, i, s). w_nl s - i)")
  show "wf (measure (\<lambda>(len, cmp, i, s). w_nl s - i))" by simp
next
  fix len cmp i and s s' :: wstate
  assume "\<not> \<not> i < w_nl s" and "writeName_escape len i s = Inr s'"
  then have "w_nl s' \<le> w_nl s" and "i < w_nl s"
    by (auto simp add: writeName_escape_def Let_def split: if_splits)
  then show "((len, cmp, i + 1, s'), (len, cmp, i, s)) \<in> measure (\<lambda>(len, cmp, i, s). w_nl s - i)"
    by simp
next
  fix len cmp i and s s' :: wstate and x :: "bool \<times> wstate" and brk
  assume "\<not> \<not> i < w_nl s" and "writeName_dot len cmp i s = Inr x" and "(brk, s') = x"
  then have "w_nl s' = w_nl s" and "i < w_nl s"
    by (auto simp add: writeName_dot_def Let_def ebind_def
        split: if_splits sum.splits option.splits prod.splits)
  then show "((len, cmp, i + 1, s'), (len, cmp, i, s)) \<in> measure (\<lambda>(len, cmp, i, s). w_nl s - i)"
    by simp
next
  fix len cmp i and s :: wstate
  assume "\<not> \<not> i < w_nl s"
  then show "((len, cmp, i + 1, s\<lparr>w_escaped := False\<rparr>), (len, cmp, i, s))
      \<in> measure (\<lambda>(len, cmp, i, s). w_nl s - i)"
    by simp
qed

declare writeName_loop.simps [simp del]

text \<open>\<^verbatim>\<open>buf.writeUInt16BE(value, offset, noAssert)\<close> of Node's Buffer with \<^verbatim>\<open>noAssert\<close> set:
  no range check, and a store outside the buffer is dropped. (From Node 10 on the
  argument is ignored and an offset outside the buffer raises a RangeError.)\<close>

definition Buffer_writeUInt16BE :: "buffer \<Rightarrow> nat \<Rightarrow> nat \<Rightarrow> buffer" where
  "Buffer_writeUInt16BE d v offset = d[offset := drop_bit 8 v AND 0xff, offset + 1 := v AND 0xff]"

text \<open>What \<^verbatim>\<open>writeName\<close> returns: the bare offset for the empty name, the pair
  \<^verbatim>\<open>[off, labels]\<close> otherwise.\<close>

datatype wn_return = RetOff nat | RetPair nat nat

text \<open>\<^verbatim>\<open>writeName(data, name, off, map, cmp)\<close>; \<open>None\<close> is \<^verbatim>\<open>null\<close>. The result carries the
  buffer and the map as the call leaves them. The name is a string of 8-bit characters,
  so \<^verbatim>\<open>Buffer.from(name, 'ascii')\<close> has the length of the name and the
  \<^verbatim>\<open>Bad ascii string\<close> branch is never taken.\<close>

definition writeName ::
  "buffer option \<Rightarrow> string \<Rightarrow> nat \<Rightarrow> (string \<rightharpoonup> nat) option \<Rightarrow> bool
     \<Rightarrow> error + (wn_return \<times> buffer option \<times> (string \<rightharpoonup> nat) option)" where
  "writeName data name off mp cmp =
     (if \<not> length name \<le> 254 then Inl AssertionError
      else
        let len = (case data of None \<Rightarrow> 256 | Some d \<Rightarrow> length d) in
        if length name = 0 then Inr (RetOff off, data, mp)
        else
          ebind (if name ! (length name - 1) \<noteq> CHR ''.''
                 then (case data of None \<Rightarrow> Inr (name @ ''.'')
                                  | Some _ \<Rightarrow> Inl (EncodingError 0 ''No dot''))
                 else Inr name) (\<lambda>name.
          ebind (writeName_loop len cmp 0
                   \<lparr>w_n = map of_char name, w_nl = length name, w_off = off, w_data = data,
                    w_name = name, w_map = mp, w_ptr = None, w_begin = 0, w_fresh = True,
                    w_escaped = False, w_labels = 0\<rparr>) (\<lambda>s.
            if length (w_n s) = 1 \<and> w_n s ! 0 = 0x2e
              then Inr (RetPair (w_off s) (w_labels s), w_data s, w_map s)
            else (case w_ptr s of
                    Some (ptr, pos) \<Rightarrow>
                      Inr (RetPair (pos + 2) (w_labels s),
                           map_option (\<lambda>d. Buffer_writeUInt16BE d pos (ptr XOR 0xc000)) (w_data s),
                           w_map s)
                  | None \<Rightarrow>
                      Inr (RetPair (w_off s + 1) (w_labels s),
                           map_option (\<lambda>d. if w_off s < len then d[w_off s := 0] else d) (w_data s),
                           w_map s)))))"

text \<open>\<^verbatim>\<open>sizeName\<close> destructures the result (\<^verbatim>\<open>const [off] = ...\<close>), which fails on a bare
  number. The message codec passes no map, so the map a call leaves behind is dropped
  here.\<close>

definition sizeName :: "string \<Rightarrow> (string \<rightharpoonup> nat) option \<Rightarrow> bool \<Rightarrow> error + nat" where
  "sizeName name mp cmp =
     ebind (writeName None name 0 mp cmp) (\<lambda>(r, _, _).
       case r of RetOff _ \<Rightarrow> Inl TypeError | RetPair off _ \<Rightarrow> Inr off)"

subsection \<open>The writer\<close>

text \<open>\<^verbatim>\<open>bufio\<close>'s \<^verbatim>\<open>StaticWriter\<close> (a dependency of the repository), as \<^verbatim>\<open>bio.write(size)\<close>
  creates it: a buffer of that many octets and a write offset. A write that does not fit
  throws an \<^verbatim>\<open>EncodingError\<close>; \<^verbatim>\<open>render\<close> returns the buffer and asserts that it was
  filled. The buffer starts zeroed here (the library allocates it uninitialised).\<close>

record BufferWriter =
  bw_data :: buffer
  bw_offset :: nat

definition bio_write :: "nat \<Rightarrow> BufferWriter" where
  "bio_write n = \<lparr>bw_data = replicate n 0, bw_offset = 0\<rparr>"

definition bw_check :: "BufferWriter \<Rightarrow> nat \<Rightarrow> error + unit" where
  "bw_check bw n =
     (if bw_offset bw + n > length (bw_data bw)
      then Inl (EncodingError (bw_offset bw) ''Out of bounds write'') else Inr ())"

definition writeU8 :: "BufferWriter \<Rightarrow> nat \<Rightarrow> error + BufferWriter" where
  "writeU8 bw v = ebind (bw_check bw 1) (\<lambda>_.
     Inr (bw\<lparr>bw_data := (bw_data bw)[bw_offset bw := v AND 0xff], bw_offset := bw_offset bw + 1\<rparr>))"

definition writeU16BE :: "BufferWriter \<Rightarrow> nat \<Rightarrow> error + BufferWriter" where
  "writeU16BE bw v = ebind (bw_check bw 2) (\<lambda>_.
     Inr (bw\<lparr>bw_data := (bw_data bw)[bw_offset bw := drop_bit 8 v AND 0xff,
                                        bw_offset bw + 1 := v AND 0xff],
             bw_offset := bw_offset bw + 2\<rparr>))"

definition writeU32BE :: "BufferWriter \<Rightarrow> nat \<Rightarrow> error + BufferWriter" where
  "writeU32BE bw v = ebind (bw_check bw 4) (\<lambda>_.
     Inr (bw\<lparr>bw_data := (bw_data bw)[bw_offset bw := drop_bit 24 v AND 0xff,
                                        bw_offset bw + 1 := drop_bit 16 v AND 0xff,
                                        bw_offset bw + 2 := drop_bit 8 v AND 0xff,
                                        bw_offset bw + 3 := v AND 0xff],
             bw_offset := bw_offset bw + 4\<rparr>))"

definition writeBytes :: "BufferWriter \<Rightarrow> buffer \<Rightarrow> error + BufferWriter" where
  "writeBytes bw v = ebind (bw_check bw (length v)) (\<lambda>_.
     Inr (bw\<lparr>bw_data := take (bw_offset bw) (bw_data bw) @ v
                           @ drop (bw_offset bw + length v) (bw_data bw),
             bw_offset := bw_offset bw + length v\<rparr>))"

definition render :: "BufferWriter \<Rightarrow> error + buffer" where
  "render bw = (if bw_offset bw \<noteq> length (bw_data bw) then Inl AssertionError else Inr (bw_data bw))"

text \<open>\<^verbatim>\<open>writeNameBW(bw, name, map, cmp)\<close>, which the message codec calls without \<^verbatim>\<open>cmp\<close>
  (so \<^verbatim>\<open>cmp\<close> is false) and, from \<^verbatim>\<open>encode\<close>, without a map. The labels it returns are
  not used by any caller in \<^verbatim>\<open>wire.js\<close>.\<close>

definition writeNameBW :: "BufferWriter \<Rightarrow> string \<Rightarrow> error + BufferWriter" where
  "writeNameBW bw name =
     ebind (writeName (Some (bw_data bw)) name (bw_offset bw) None False) (\<lambda>(r, d, _).
       case r of
         RetOff _ \<Rightarrow> Inl TypeError
       | RetPair off _ \<Rightarrow> Inr (bw\<lparr>bw_data := (case d of Some d' \<Rightarrow> d' | None \<Rightarrow> bw_data bw),
                                   bw_offset := off\<rparr>))"

subsection \<open>Writing records and questions\<close>

text \<open>\<^verbatim>\<open>getSize\<close> and \<^verbatim>\<open>write\<close> of the record data classes and of \<^verbatim>\<open>Option\<close>, as
  \<^verbatim>\<open>Message.encode\<close> reaches them: without a compression map. \<^verbatim>\<open>UNKNOWNOption\<close> answers
  \<^verbatim>\<open>options.RESERVED\<close>, 0, for its \<^verbatim>\<open>code\<close>.\<close>

definition OptionData_code :: "OptionData \<Rightarrow> nat" where
  "OptionData_code od = (case od of UNKNOWNOption _ \<Rightarrow> 0)"

definition OptionData_getSize :: "OptionData \<Rightarrow> nat" where
  "OptionData_getSize od = (case od of UNKNOWNOption d \<Rightarrow> length d)"

definition Option_getSize :: "Option \<Rightarrow> nat" where
  "Option_getSize opt = 4 + OptionData_getSize (opt_option opt)"

definition Option_write :: "BufferWriter \<Rightarrow> Option \<Rightarrow> error + BufferWriter" where
  "Option_write bw opt =
     ebind (writeU16BE bw (opt_code opt)) (\<lambda>bw.
     ebind (writeU16BE bw (OptionData_getSize (opt_option opt))) (\<lambda>bw.
       case opt_option opt of UNKNOWNOption d \<Rightarrow> writeBytes bw d))"

fun write_options :: "BufferWriter \<Rightarrow> Option list \<Rightarrow> error + BufferWriter" where
  "write_options bw [] = Inr bw"
| "write_options bw (opt # opts) = ebind (Option_write bw opt) (\<lambda>bw. write_options bw opts)"

text \<open>Modelled from the spec: \<^verbatim>\<open>writeIP\<close> (see \<open>readIP\<close>) writes the octets of the address,
  and fails on an address that does not have the length asked for.\<close>

definition writeIP :: "BufferWriter \<Rightarrow> buffer \<Rightarrow> nat \<Rightarrow> error + BufferWriter" where
  "writeIP bw a n = (if length a \<noteq> n then Inl Error else writeBytes bw a)"

definition RecordData_getSize :: "RecordData \<Rightarrow> error + nat" where
  "RecordData_getSize rd =
     (case rd of
        UNKNOWNRecord d \<Rightarrow> Inr (length d)
      | ARecord a \<Rightarrow> Inr 4
      | NSRecord n \<Rightarrow> sizeName n None False
      | CNAMERecord n \<Rightarrow> sizeName n None False
      | SIGRecord cov alg lbl ot ex inc kt sn sg \<Rightarrow>
          ebind (sizeName sn None False) (\<lambda>k. Inr (18 + k + length sg))
      | OPTRecord opts \<Rightarrow> Inr (sum_list (map Option_getSize opts))
      | TSIGRecord alg ts fu mc oid er ot \<Rightarrow>
          ebind (sizeName alg None False) (\<lambda>k. Inr (16 + k + length mc + length ot)))"

definition RecordData_write :: "BufferWriter \<Rightarrow> RecordData \<Rightarrow> error + BufferWriter" where
  "RecordData_write bw rd =
     (case rd of
        UNKNOWNRecord d \<Rightarrow> writeBytes bw d
      | ARecord a \<Rightarrow> writeIP bw a 4
      | NSRecord n \<Rightarrow> writeNameBW bw n
      | CNAMERecord n \<Rightarrow> writeNameBW bw n
      | SIGRecord cov alg lbl ot ex inc kt sn sg \<Rightarrow>
          ebind (writeU16BE bw cov) (\<lambda>bw.
          ebind (writeU8 bw alg) (\<lambda>bw.
          ebind (writeU8 bw lbl) (\<lambda>bw.
          ebind (writeU32BE bw ot) (\<lambda>bw.
          ebind (writeU32BE bw ex) (\<lambda>bw.
          ebind (writeU32BE bw inc) (\<lambda>bw.
          ebind (writeU16BE bw kt) (\<lambda>bw.
          ebind (writeNameBW bw sn) (\<lambda>bw.
            writeBytes bw sg))))))))
      | OPTRecord opts \<Rightarrow> write_options bw opts
      | TSIGRecord alg ts fu mc oid er ot \<Rightarrow>
          ebind (writeNameBW bw alg) (\<lambda>bw.
          ebind (writeU16BE bw (ts div 0x100000000)) (\<lambda>bw.
          ebind (writeU32BE bw ts) (\<lambda>bw.
          ebind (writeU16BE bw fu) (\<lambda>bw.
          ebind (writeU16BE bw (length mc)) (\<lambda>bw.
          ebind (writeBytes bw mc) (\<lambda>bw.
          ebind (writeU16BE bw oid) (\<lambda>bw.
          ebind (writeU16BE bw er) (\<lambda>bw.
          ebind (writeU16BE bw (length ot)) (\<lambda>bw.
            writeBytes bw ot))))))))))"

definition Record_getSize :: "Record \<Rightarrow> error + nat" where
  "Record_getSize rr =
     ebind (sizeName (rr_name rr) None False) (\<lambda>k.
     ebind (RecordData_getSize (rr_data rr)) (\<lambda>d. Inr (k + 10 + d)))"

definition Record_write :: "BufferWriter \<Rightarrow> Record \<Rightarrow> error + BufferWriter" where
  "Record_write bw rr =
     ebind (writeNameBW bw (rr_name rr)) (\<lambda>bw.
     ebind (writeU16BE bw (rr_type rr)) (\<lambda>bw.
     ebind (writeU16BE bw (rr_class rr)) (\<lambda>bw.
     ebind (writeU32BE bw (rr_ttl rr)) (\<lambda>bw.
     ebind (RecordData_getSize (rr_data rr)) (\<lambda>sz.
     ebind (writeU16BE bw sz) (\<lambda>bw.
       RecordData_write bw (rr_data rr)))))))"

definition Question_getSize :: "Question \<Rightarrow> error + nat" where
  "Question_getSize qs = ebind (sizeName (qs_name qs) None False) (\<lambda>k. Inr (k + 4))"

definition Question_write :: "BufferWriter \<Rightarrow> Question \<Rightarrow> error + BufferWriter" where
  "Question_write bw qs =
     ebind (writeNameBW bw (qs_name qs)) (\<lambda>bw.
     ebind (writeU16BE bw (qs_type qs)) (\<lambda>bw.
       writeU16BE bw (qs_class qs)))"

text \<open>\<^verbatim>\<open>EDNS.toRecord\<close>; the final \<^verbatim>\<open>>>>= 0\<close> makes the 32-bit word unsigned.\<close>

definition toRecord :: "EDNS \<Rightarrow> Record" where
  "toRecord e =
     \<lparr>rr_name = ''.'', rr_type = types_OPT, rr_class = e_size e,
      rr_ttl = push_bit 24 (e_code e AND 0xff) OR push_bit 16 (e_version e AND 0xff)
                 OR (e_flags e AND 0xffff),
      rr_data = OPTRecord (map (\<lambda>od. \<lparr>opt_code = OptionData_code od, opt_option = od\<rparr>) (e_options e))\<rparr>"

subsection \<open>Message.getSizes, Message.write, Message.encode\<close>

text \<open>One \<^verbatim>\<open>for\<close> loop of \<^verbatim>\<open>getSizes\<close> over a list of records, with the running
  \<^verbatim>\<open>size\<close> and \<^verbatim>\<open>items\<close>. On overflow the answer and authority loops return the
  running pair (\<open>ret = None\<close>); the additional loop and the three pseudo-record blocks
  return the saved \<^verbatim>\<open>[osize, oitems]\<close> (\<open>ret = Some (osize, oitems)\<close>).\<close>

fun sizes_loop ::
  "bool \<Rightarrow> nat \<Rightarrow> (nat \<times> nat) option \<Rightarrow> Record list \<Rightarrow> nat \<Rightarrow> nat
     \<Rightarrow> error + (nat \<times> nat, nat \<times> nat) flow" where
  "sizes_loop udp mx ret [] sz items = Inr (Next (sz, items))"
| "sizes_loop udp mx ret (rr # rrs) sz items =
     ebind (Record_getSize rr) (\<lambda>k.
       if udp \<and> sz + k > mx
       then Inr (Return (case ret of None \<Rightarrow> (sz, items) | Some r \<Rightarrow> r))
       else sizes_loop udp mx ret rrs (sz + k) (items + 1))"

fun sizes_questions :: "Question list \<Rightarrow> nat \<Rightarrow> error + nat" where
  "sizes_questions [] sz = Inr sz"
| "sizes_questions (qs # qss) sz = ebind (Question_getSize qs) (\<lambda>k. sizes_questions qss (sz + k))"

text \<open>The records of the three blocks after the additional loop, in their order: the
  OPT record when EDNS is enabled, then TSIG, then SIG(0).\<close>

definition pseudo_records :: "Message \<Rightarrow> Record list" where
  "pseudo_records msg =
     (if e_enabled (edns msg) then [toRecord (edns msg)] else [])
     @ (case tsig msg of Some rr \<Rightarrow> [rr] | None \<Rightarrow> [])
     @ (case sig0 msg of Some rr \<Rightarrow> [rr] | None \<Rightarrow> [])"

text \<open>\<^verbatim>\<open>getSizes(udp, null)\<close>: the pair \<^verbatim>\<open>[size, items]\<close>, with \<open>items = -1\<close> when
  \<^verbatim>\<open>udp\<close> is false.\<close>

definition getSizes :: "bool \<Rightarrow> Message \<Rightarrow> error + (nat \<times> int)" where
  "getSizes udp msg =
     (let mx = (if udp \<and> e_enabled (edns msg) \<and> e_size (edns msg) \<ge> MAX_UDP_SIZE
                then e_size (edns msg) else MAX_UDP_SIZE)
      in
      ebind (sizes_questions (question msg) 12) (\<lambda>sz.
        if \<not> sz \<le> mx then Inl AssertionError
        else
          ebind (sizes_loop udp mx None (answer msg) sz 0) (\<lambda>f.
            case f of Return (s, i) \<Rightarrow> Inr (s, int i) | Next (sz, items) \<Rightarrow>
          ebind (sizes_loop udp mx None (authority msg) sz items) (\<lambda>f.
            case f of Return (s, i) \<Rightarrow> Inr (s, int i) | Next (sz, items) \<Rightarrow>
          ebind (sizes_loop udp mx (Some (sz, items)) (additional msg @ pseudo_records msg) sz items)
            (\<lambda>f.
            case f of Return (s, i) \<Rightarrow> Inr (s, int i) | Next (sz, items) \<Rightarrow>
              Inr (sz, if \<not> udp then - 1 else int items))))))"

text \<open>One record loop of \<^verbatim>\<open>write\<close>: each record is written, then \<^verbatim>\<open>--items === 0\<close>
  leaves the function.\<close>

fun write_records ::
  "BufferWriter \<Rightarrow> int \<Rightarrow> Record list \<Rightarrow> error + (BufferWriter, BufferWriter \<times> int) flow" where
  "write_records bw items [] = Inr (Next (bw, items))"
| "write_records bw items (rr # rrs) =
     ebind (Record_write bw rr) (\<lambda>bw.
       if items - 1 = 0 then Inr (Return bw) else write_records bw (items - 1) rrs)"

fun write_questions :: "BufferWriter \<Rightarrow> Question list \<Rightarrow> error + BufferWriter" where
  "write_questions bw [] = Inr bw"
| "write_questions bw (qs # qss) = ebind (Question_write bw qs) (\<lambda>bw. write_questions bw qss)"

text \<open>The flags word \<^verbatim>\<open>write\<close> emits.\<close>

definition header_bits :: "Message \<Rightarrow> int \<Rightarrow> nat" where
  "header_bits msg items =
     (let bits = m_flags msg;
          bits = and_not bits (push_bit 11 0x0f);
          bits = bits OR push_bit 11 (m_opcode msg AND 0x0f);
          bits = and_not bits 0x0f;
          bits = bits OR (m_code msg AND 0x0f)
      in if items < int (bodyLength msg) then bits OR flags_TC else bits)"

text \<open>\<^verbatim>\<open>write\<close> up to the end of the additional loop: the header and the questions,
  then the three record loops.\<close>

definition write_header :: "BufferWriter \<Rightarrow> int \<Rightarrow> Message \<Rightarrow> error + BufferWriter" where
  "write_header bw items msg =
     ebind (writeU16BE bw (m_id msg)) (\<lambda>bw.
     ebind (writeU16BE bw (header_bits msg items)) (\<lambda>bw.
     ebind (writeU16BE bw (length (question msg))) (\<lambda>bw.
     ebind (writeU16BE bw (length (answer msg))) (\<lambda>bw.
     ebind (writeU16BE bw (length (authority msg))) (\<lambda>bw.
     ebind (writeU16BE bw (arcount msg)) (\<lambda>bw.
       write_questions bw (question msg)))))))"

definition write_body ::
  "BufferWriter \<Rightarrow> int \<Rightarrow> Message \<Rightarrow> error + (BufferWriter, BufferWriter \<times> int) flow" where
  "write_body bw items msg =
     ebind (write_records bw items (answer msg)) (\<lambda>f.
       case f of Return bw \<Rightarrow> Inr (Return bw) | Next (bw, items) \<Rightarrow>
     ebind (write_records bw items (authority msg)) (\<lambda>f.
       case f of Return bw \<Rightarrow> Inr (Return bw) | Next (bw, items) \<Rightarrow>
     write_records bw items (additional msg)))"

definition write_sections ::
  "BufferWriter \<Rightarrow> int \<Rightarrow> Message \<Rightarrow> error + (BufferWriter, BufferWriter \<times> int) flow" where
  "write_sections bw items msg =
     ebind (write_header bw items msg) (\<lambda>bw. write_body bw items msg)"

text \<open>The assignment \<^verbatim>\<open>write\<close> makes once the additional loop has ended.\<close>

definition force_edns :: "Message \<Rightarrow> Message" where
  "force_edns msg =
     (if m_code msg > 0x0f
      then msg\<lparr>edns := (edns msg)\<lparr>e_enabled := True, e_code := drop_bit 4 (m_code msg)\<rparr>\<rparr>
      else msg)"

text \<open>\<^verbatim>\<open>Message.write(bw, items, null)\<close>. The result is the receiver as the call leaves
  it, with the writer or the error thrown.\<close>

definition Message_write :: "BufferWriter \<Rightarrow> int \<Rightarrow> Message \<Rightarrow> Message \<times> (error + BufferWriter)" where
  "Message_write bw items0 msg =
     (let items = (if items0 = - 1 then int (bodyLength msg) else items0) in
      case write_sections bw items msg of
        Inl e \<Rightarrow> (msg, Inl e)
      | Inr (Return bw) \<Rightarrow> (msg, Inr bw)
      | Inr (Next (bw, items)) \<Rightarrow>
          let msg' = force_edns msg in
          (msg', case write_records bw items (pseudo_records msg') of
                   Inl e \<Rightarrow> Inl e
                 | Inr (Return bw) \<Rightarrow> Inr bw
                 | Inr (Next (bw, items)) \<Rightarrow> Inr bw))"

text \<open>\<^verbatim>\<open>Message.encode(udp)\<close>.\<close>

definition Message_encode :: "bool \<Rightarrow> Message \<Rightarrow> Message \<times> (error + buffer)" where
  "Message_encode udp msg =
     (case getSizes udp msg of
        Inl e \<Rightarrow> (msg, Inl e)
      | Inr (sz, items) \<Rightarrow>
          (case Message_write (bio_write sz) items msg of
             (msg', r) \<Rightarrow> (msg', ebind r render)))"

subsection \<open>Example messages\<close>

text \<open>A new message with response code BADVERS (16); EDNS is disabled, as the
  constructor leaves it.\<close>

definition badvers :: Message where
  "badvers = new_Message\<lparr>m_code := 16\<rparr>"

definition a_record :: Record where
  "a_record = \<lparr>rr_name = ''a.'', rr_type = 1, rr_class = 1, rr_ttl = 60,
     rr_data = ARecord [1, 2, 3, 4]\<rparr>"

text \<open>The number of records in the three record arrays of a message; the pseudo-records
  (OPT, TSIG, SIG(0)) are not among them.\<close>

definition regular_count :: "Message \<Rightarrow> int" where
  "regular_count msg = int (length (answer msg) + length (authority msg) + length (additional msg))"

text \<open>A query for a name of two labels of 32 zero octets each, and the message it decodes
  to: every zero octet of the name is the decimal escape \<open>\000\<close> there.\<close>

definition nul_label :: string where
  "nul_label = concat (replicate 32 [CHR 0x5c, CHR ''0'', CHR ''0'', CHR ''0'']) @ ''.''"

definition nul_query :: buffer where
  "nul_query = [0, 0, 0, 0, 0, 1, 0, 0, 0, 0, 0, 0]
     @ [32] @ replicate 32 0 @ [32] @ replicate 32 0 @ [0]
     @ [0, 1, 0, 1]"

definition nul_message :: Message where
  "nul_message = new_Message\<lparr>question := [\<lparr>qs_name = nul_label @ nul_label, qs_type = 1, qs_class = 1\<rparr>],
       m_size := 83\<rparr>"

section \<open>Properties\<close>

subsection \<open>util.equal and Message.collect\<close>

lemma equal_loop_ignores_b: "equal_loop a b n = equal_loop a b' n"
  by (induction n) (simp_all add: Let_def)

text \<open>
  C7. \<^verbatim>\<open>util.equal(a, b)\<close> is meant to hold exactly when \<open>a\<close> and \<open>b\<close> have the
  same length and agree up to ASCII case. The code reads both characters from \<open>a\<close>:
  on \<open>''a''\<close> and \<open>''b''\<close> it answers true, on \<open>''ab''\<close> and \<open>''ab''\<close> it answers
  true, and on \<open>''A''\<close> and \<open>''a''\<close> it does not return at all, because the folding
  assignment to the \<^verbatim>\<open>const\<close> binding throws.
\<close>

theorem util_equal_reads_only_first_argument:
  "equal ''a'' ''b'' = Inr True \<and> equal ''ab'' ''ab'' = Inr True
   \<and> equal ''A'' ''a'' = Inl TypeError"
  by (simp add: equal_def numeral_2_eq_2)

definition www_example_answer :: "Record list" where
  "www_example_answer =
     [\<lparr>rr_name = ''example.com.'', rr_type = types_CNAME, rr_class = classes_IN, rr_ttl = 3600,
        rr_data = CNAMERecord ''www.example.com.''\<rparr>,
      \<lparr>rr_name = ''www.example.com.'', rr_type = types_A, rr_class = classes_IN, rr_ttl = 3600,
        rr_data = ARecord [93, 184, 216, 34]\<rparr>]"

text \<open>
  C8. For the answer section \<open>example.com. CNAME www.example.com.\<close>,
  \<open>www.example.com. A 93.184.216.34\<close>, a call \<^verbatim>\<open>collect('example.com.', A)\<close> should
  follow the CNAME and return the A record. In the code \<^verbatim>\<open>util.fqdn\<close> strips the final
  dot of a fully qualified name, the target \<open>example.com\<close> has a length no owner name of
  the section has, and the result is empty.
\<close>

theorem collect_cname_chain_returns_nothing:
  "fqdn ''example.com.'' = ''example.com''
   \<and> collect (new_Message\<lparr>answer := www_example_answer\<rparr>) ''example.com.'' types_A = Inr []"
  by (simp add: collect_def fqdn_def isFQDN_def www_example_answer_def new_Message_def
      equal_def ebind_def consts_defs)

subsection \<open>readName: what is rejected\<close>

lemma and_c0_nonzero: "(c::nat) AND 0xc0 = 0xc0 \<Longrightarrow> c \<noteq> 0"
  by (rule ccontr) simp


lemma loop_label_step:
  "off < length data \<Longrightarrow> data ! off \<noteq> 0 \<Longrightarrow> data ! off AND 0xc0 = 0 \<Longrightarrow>
   off + 1 + data ! off \<le> length data \<Longrightarrow>
   readName_label data (off + 1) (off + 1) (data ! off) name mx = Inr (name', mx') \<Longrightarrow>
   readName_loop data off name res mx ptr =
   readName_loop data (off + 1 + data ! off) (name' @ ''.'') res mx' ptr"
  by (subst readName_loop.simps) (simp add: Let_def)

lemma loop_pointer_step:
  "off + 1 < length data \<Longrightarrow> data ! off AND 0xc0 = 0xc0 \<Longrightarrow> ptr < 10 \<Longrightarrow>
   readName_loop data off name res mx ptr =
   readName_loop data (push_bit 8 (data ! off XOR 0xc0) OR data ! (off + 1)) name
     (if ptr = 0 then off + 2 else res) mx (ptr + 1)"
  using and_c0_nonzero [of "data ! off"]
  by (subst readName_loop.simps) (simp add: Let_def)

lemma reach_same_result:
  "readName_reach data s s' \<Longrightarrow> loop_at data s = loop_at data s'"
proof (induction rule: readName_reach.induct)
  case (start s)
  then show ?case by simp
next
  case (label s off name res mx ptr name' mx')
  then show ?case
    by (simp add: loop_at_def loop_label_step)
next
  case (pointer s off name res mx ptr)
  then show ?case
    by (simp add: loop_at_def loop_pointer_step)
qed

lemma loop_bad_character:
  assumes "off < length data" and "data ! off AND 0xc0 = 0x40 \<or> data ! off AND 0xc0 = 0x80"
  shows "readName_loop data off name res mx ptr = Inl (EncodingError (off + 1) ''Bad character'')"
proof -
  have nz: "data ! off \<noteq> 0" using assms(2) by (rule_tac ccontr) simp
  from assms(2) show ?thesis
  proof
    assume "data ! off AND 0xc0 = 0x40"
    with nz assms(1) show ?thesis by (subst readName_loop.simps) (simp add: Let_def)
  next
    assume "data ! off AND 0xc0 = 0x80"
    with nz assms(1) show ?thesis by (subst readName_loop.simps) (simp add: Let_def)
  qed
qed

lemma loop_too_many_pointers:
  "off + 1 < length data \<Longrightarrow> data ! off AND 0xc0 = 0xc0 \<Longrightarrow> ptr \<ge> 10 \<Longrightarrow>
   readName_loop data off name res mx ptr = Inl (EncodingError (off + 2) ''Too many pointers'')"
  using and_c0_nonzero [of "data ! off"]
  by (subst readName_loop.simps) (simp add: Let_def)


lemma raw_skip_unit: "escaped_unit u \<Longrightarrow> raw_skip 0 (u @ r) = 1 + raw_skip 0 r"
  unfolding escaped_unit_def
  by (elim disjE exE conjE) (simp_all add: numeral_3_eq_3)

lemma raw_skip_concat: "list_all escaped_unit us \<Longrightarrow> raw_skip 0 (concat us) = length us"
  by (induction us) (simp_all add: raw_skip_unit)

lemma name_inv_raw_length: "name_inv name mx \<Longrightarrow> raw_length name + mx = length name + 255"
  by (auto simp add: name_inv_def raw_length_def raw_skip_concat)

lemma escaped_unit_length: "escaped_unit u \<Longrightarrow> 1 \<le> length u"
  unfolding escaped_unit_def by auto

lemma name_inv_append: 
  assumes "name_inv name mx" and "escaped_unit u"
  shows "name_inv (name @ u) (mx + (length u - 1))"
proof -
  from assms(1) obtain us where us: "name = concat us" "list_all escaped_unit us"
    "length name + 255 = length us + mx" by (auto simp add: name_inv_def)
  have "name @ u = concat (us @ [u])" using us(1) by simp
  moreover have "list_all escaped_unit (us @ [u])" using us(2) assms(2) by simp
  moreover have "length (name @ u) + 255 = length (us @ [u]) + (mx + (length u - 1))"
    using us(3) escaped_unit_length [OF assms(2)] by simp
  ultimately show ?thesis unfolding name_inv_def by blast
qed


lemma ASCII_reserved_tab:
  "list_all (\<lambda>b. \<not> isDigitChar (ASCII ! b)) [0x2e, 0x28, 0x29, 0x3b, 0x20, 0x40, 0x22, 0x5c]"
  by code_simp

lemma ASCII_plain_tab:
  "list_all (\<lambda>b. b = 0x5c \<or> ASCII ! b \<noteq> CHR 0x5c) [0x20..<0x7f]"
  by code_simp

lemma DIGITS_tab: "list_all (\<lambda>k. isDigitChar (DIGITS ! k)) [0..<10]"
  by code_simp

lemma ASCII_plain: "0x20 \<le> b \<Longrightarrow> b \<le> 0x7e \<Longrightarrow> b \<noteq> 0x5c \<Longrightarrow> ASCII ! b \<noteq> CHR 0x5c"
proof -
  assume "0x20 \<le> b" "b \<le> 0x7e" "b \<noteq> 0x5c"
  then have "b \<in> set [0x20..<0x7f]" unfolding set_upt by simp
  with ASCII_plain_tab have "b = 0x5c \<or> ASCII ! b \<noteq> CHR 0x5c"
    unfolding list_all_iff by (rule bspec)
  with \<open>b \<noteq> 0x5c\<close> show ?thesis by simp
qed

lemma DIGITS_digit: "k < 10 \<Longrightarrow> isDigitChar (DIGITS ! k)"
proof -
  assume "k < 10"
  then have "k \<in> set [0..<10]" unfolding set_upt by simp
  with DIGITS_tab show ?thesis unfolding list_all_iff by (rule bspec)
qed

lemma toDDD_unit:
  assumes "toDDD b = Inr d"
  shows "escaped_unit (CHR 0x5c # d) \<and> length d = 3"
proof -
  have z: "isDigitChar CHR ''0''" by (simp add: isDigitChar_def)
  consider "b < 10" | "\<not> b < 10" "b < 100" | "\<not> b < 10" "\<not> b < 100" "b < 1000"
    | "\<not> b < 10" "\<not> b < 100" "\<not> b < 1000" by blast
  then show ?thesis
  proof cases
    case 1
    with assms have "d = [CHR ''0'', CHR ''0'', DIGITS ! b]" by (simp add: toDDD_def)
    with z show ?thesis unfolding escaped_unit_def by simp
  next
    case 2
    with assms have "d = [CHR ''0'', DIGITS ! (b div 10), DIGITS ! (b mod 10)]"
      by (simp add: toDDD_def)
    with z show ?thesis unfolding escaped_unit_def by simp
  next
    case 3
    with assms have d: "d = [DIGITS ! (b div 100), DIGITS ! (b div 10 mod 10), DIGITS ! (b mod 10)]"
      by (simp add: toDDD_def)
    from 3 have "b div 100 < 10" by simp
    then have "isDigitChar (DIGITS ! (b div 100))" by (rule DIGITS_digit)
    with d show ?thesis unfolding escaped_unit_def by simp
  next
    case 4
    with assms show ?thesis by (simp add: toDDD_def)
  qed
qed

lemma reserved_not_digit: "reserved_octet b \<Longrightarrow> \<not> isDigitChar (ASCII ! b)"
  using ASCII_reserved_tab unfolding reserved_octet_def by (elim disjE) simp_all

lemma escape_octet_unit:
  assumes "escape_octet b = Inr (s, inc)"
  shows "escaped_unit s \<and> inc = length s - 1"
proof (cases "reserved_octet b")
  case True
  with assms reserved_not_digit [OF True] show ?thesis
    by (auto simp add: escape_octet_def escaped_unit_def)
next
  case False
  note nres = this
  show ?thesis
  proof (cases "b < 0x20 \<or> b > 0x7e")
    case True
    with nres assms obtain d where d: "toDDD b = Inr d" and s: "s = CHR 0x5c # d" "inc = 3"
      by (cases "toDDD b") (auto simp add: escape_octet_def ebind_def)
    from toDDD_unit [OF d] s show ?thesis by simp
  next
    case False
    have "b \<noteq> 0x5c" using nres by (simp add: reserved_octet_def)
    with False have "ASCII ! b \<noteq> CHR 0x5c" by (intro ASCII_plain) auto
    with nres False assms show ?thesis
      by (auto simp add: escape_octet_def escaped_unit_def)
  qed
qed

lemma readName_label_inv:
  "name_inv name mx \<Longrightarrow> readName_label data off j k name mx = Inr (name', mx') \<Longrightarrow>
   name_inv name' mx'"
proof (induction k arbitrary: j name mx)
  case 0
  then show ?case by simp
next
  case (Suc k)
  from Suc.prems(2) obtain s inc where e: "escape_octet (data ! j) = Inr (s, inc)"
    by (cases "escape_octet (data ! j)") (auto simp add: ebind_def)
  from escape_octet_unit [OF e] have u: "escaped_unit s" and i: "inc = length s - 1" by simp_all
  have inv: "name_inv (name @ s) (mx + inc)"
    using name_inv_append [OF Suc.prems(1) u] i by simp
  from Suc.prems(2) e
  have "readName_label data off (j + 1) k (name @ s) (mx + inc) = Inr (name', mx')"
    by (simp add: ebind_def split: if_splits)
  from Suc.IH [OF inv this] show ?case .
qed

lemma loop_eof: "off \<ge> length data \<Longrightarrow>
   readName_loop data off name res mx ptr = Inl (EncodingError off ''EOF'')"
  by (subst readName_loop.simps) simp

lemma loop_zero: "off < length data \<Longrightarrow> data ! off = 0 \<Longrightarrow>
   readName_loop data off name res mx ptr = Inr (off + 1, name, res, mx, ptr)"
  by (subst readName_loop.simps) (simp add: Let_def)

lemma loop_label_eof: "off < length data \<Longrightarrow> data ! off \<noteq> 0 \<Longrightarrow> data ! off AND 0xc0 = 0 \<Longrightarrow>
   off + 1 + data ! off > length data \<Longrightarrow>
   readName_loop data off name res mx ptr = Inl (EncodingError (off + 1) ''EOF'')"
  by (subst readName_loop.simps) (simp add: Let_def)

lemma loop_label_error: "off < length data \<Longrightarrow> data ! off \<noteq> 0 \<Longrightarrow> data ! off AND 0xc0 = 0 \<Longrightarrow>
   off + 1 + data ! off \<le> length data \<Longrightarrow>
   readName_label data (off + 1) (off + 1) (data ! off) name mx = Inl e \<Longrightarrow>
   readName_loop data off name res mx ptr = Inl e"
  by (subst readName_loop.simps) (simp add: Let_def)

lemma loop_pointer_eof: "off < length data \<Longrightarrow> data ! off AND 0xc0 = 0xc0 \<Longrightarrow>
   off + 1 \<ge> length data \<Longrightarrow>
   readName_loop data off name res mx ptr = Inl (EncodingError (off + 1) ''EOF'')"
  using and_c0_nonzero [of "data ! off"]
  by (subst readName_loop.simps) (simp add: Let_def)

lemma loop_other: "off < length data \<Longrightarrow> data ! off \<noteq> 0 \<Longrightarrow> data ! off AND 0xc0 \<noteq> 0 \<Longrightarrow>
   data ! off AND 0xc0 \<noteq> 0xc0 \<Longrightarrow>
   readName_loop data off name res mx ptr = Inl (EncodingError (off + 1) ''Bad character'')"
  by (subst readName_loop.simps) (simp add: Let_def)

lemma readName_loop_inv:
  "name_inv name mx \<Longrightarrow> readName_loop data off name res mx ptr = Inr (off', name', res', mx', ptr') \<Longrightarrow>
   name_inv name' mx' \<and> (ptr \<le> 10 \<longrightarrow> ptr' \<le> 10)"
proof (induction data off name res mx ptr rule: readName_loop.induct)
  case (1 data off name res mx ptr)
  note prem = "1.prems"(2)
  show ?case
  proof (cases "off \<ge> length data")
    case True
    with prem show ?thesis by (simp add: loop_eof)
  next
    case ninb: False
    then have inb: "off < length data" by simp
    show ?thesis
    proof (cases "data ! off = 0")
      case True
      with inb prem "1.prems"(1) show ?thesis by (simp add: loop_zero)
    next
      case nz: False
      show ?thesis
      proof (cases "data ! off AND 0xc0 = 0")
        case lab: True
        show ?thesis
        proof (cases "off + 1 + data ! off > length data")
          case True
          with inb nz lab prem show ?thesis by (simp add: loop_label_eof)
        next
          case False
          then have fits: "off + 1 + data ! off \<le> length data" by simp
          show ?thesis
          proof (cases "readName_label data (off + 1) (off + 1) (data ! off) name mx")
            case (Inl e)
            from prem loop_label_error [OF inb nz lab fits Inl] show ?thesis by simp
          next
            case (Inr p)
            obtain n1 m1 where p: "p = (n1, m1)" by (cases p)
            note l = Inr [unfolded p]
            from prem loop_label_step [OF inb nz lab fits l] have r:
              "readName_loop data (off + 1 + data ! off) (n1 @ ''.'') res m1 ptr = Inr (off', name', res', mx', ptr')"
              by simp
            have i1: "name_inv n1 m1" using readName_label_inv [OF "1.prems"(1) l] .
            have "escaped_unit ''.''" by (simp add: escaped_unit_def)
            from name_inv_append [OF i1 this] have i2: "name_inv (n1 @ ''.'') m1" by simp
            have fits': "\<not> length data < off + 1 + data ! off" using fits by simp
            show ?thesis
              using "1.IH"(1) [OF ninb refl refl nz lab fits' l refl i2 r] .
          qed
        qed
      next
        case nlab: False
        show ?thesis
        proof (cases "data ! off AND 0xc0 = 0xc0")
          case False
          from prem loop_other [OF inb nz nlab False] show ?thesis by simp
        next
          case pt: True
          show ?thesis
          proof (cases "off + 1 \<ge> length data")
            case True
            from prem loop_pointer_eof [OF inb pt True] show ?thesis by simp
          next
            case False
            then have inb1: "off + 1 < length data" by simp
            show ?thesis
            proof (cases "ptr \<ge> 10")
              case True
              from prem loop_too_many_pointers [OF inb1 pt True] show ?thesis by simp
            next
              case False
              then have lt: "ptr < 10" by simp
              from prem loop_pointer_step [OF inb1 pt lt] have r:
                "readName_loop data (push_bit 8 (data ! off XOR 0xc0) OR data ! (off + 1)) name
                   (if ptr = 0 then off + 2 else res) mx (ptr + 1) = Inr (off', name', res', mx', ptr')"
                by simp
              have a: "\<not> length data \<le> off + 1" using inb1 by simp
              have b: "\<not> 10 < ptr + 1" using lt by simp
              have c: "(if ptr = 0 then off + 2 else res) = (if ptr = 0 then off + 1 + 1 else res)" by simp
              show ?thesis
                using "1.IH"(2) [OF \<open>\<not> length data \<le> off\<close> refl refl nz nlab pt a refl refl refl refl b "1.prems"(1) r [unfolded c]] lt
                by simp
            qed
          qed
        qed
      qed
    qed
  qed
qed

lemma readName_of_loop_error:
  "readName_reach data (off0, [], 0, 255, 0) s \<Longrightarrow> loop_at data s = Inl e \<Longrightarrow>
   readName data off0 = Inl e"
  using reach_same_result [of data "(off0, [], 0, 255, 0)" s]
  by (simp add: readName_def loop_at_def)

text \<open>
  C5 (amended). \<^verbatim>\<open>readName\<close> raises an encoding error when the decoding comes to an
  eleventh pointer, when it comes to a length octet whose top two bits are 01 or 10, and
  whenever the name it rebuilds stands for 255 octets or more (a name of more than 255
  octets on the wire, the root octet included): a name it returns stands for at most 254.
  The target of a pointer is not compared with the current offset.
\<close>

theorem readName_rejects:
  "(readName_reach data (off0, [], 0, 255, 0) (off, name, res, mx, ptr)
      \<and> off + 1 < length data \<and> data ! off AND 0xc0 = 0xc0 \<and> ptr \<ge> 10
      \<longrightarrow> readName data off0 = Inl (EncodingError (off + 2) ''Too many pointers''))
   \<and> (readName_reach data (off0, [], 0, 255, 0) (off, name, res, mx, ptr)
      \<and> off < length data \<and> (data ! off AND 0xc0 = 0x40 \<or> data ! off AND 0xc0 = 0x80)
      \<longrightarrow> readName data off0 = Inl (EncodingError (off + 1) ''Bad character''))
   \<and> (readName data off0 = Inr (r, n) \<longrightarrow> raw_length n < 255)"
proof (intro conjI impI)
  assume a: "readName_reach data (off0, [], 0, 255, 0) (off, name, res, mx, ptr)
      \<and> off + 1 < length data \<and> data ! off AND 0xc0 = 0xc0 \<and> ptr \<ge> 10"
  then have "loop_at data (off, name, res, mx, ptr) = Inl (EncodingError (off + 2) ''Too many pointers'')"
    by (simp add: loop_at_def loop_too_many_pointers)
  with a show "readName data off0 = Inl (EncodingError (off + 2) ''Too many pointers'')"
    by (blast intro: readName_of_loop_error)
next
  assume a: "readName_reach data (off0, [], 0, 255, 0) (off, name, res, mx, ptr)
      \<and> off < length data \<and> (data ! off AND 0xc0 = 0x40 \<or> data ! off AND 0xc0 = 0x80)"
  then have "loop_at data (off, name, res, mx, ptr) = Inl (EncodingError (off + 1) ''Bad character'')"
    by (simp add: loop_at_def loop_bad_character)
  with a show "readName data off0 = Inl (EncodingError (off + 1) ''Bad character'')"
    by (blast intro: readName_of_loop_error)
next
  assume a: "readName data off0 = Inr (r, n)"
  then obtain off' nm rs mx' p where l: "readName_loop data off0 [] 0 255 0 = Inr (off', nm, rs, mx', p)"
    by (cases "readName_loop data off0 [] 0 255 0") (auto simp add: readName_def)
  have "name_inv [] 255" unfolding name_inv_def by (rule exI [of _ "[]"]) simp
  from readName_loop_inv [OF this l] have inv: "name_inv nm mx'" by simp
  have dot: "escaped_unit ''.''" by (simp add: escaped_unit_def)
  let ?nm = "if length nm = 0 then ''.'' else nm"
  from a l have n: "n = ?nm" and short: "length ?nm < mx'"
    by (auto simp add: readName_def Let_def split: if_splits)
  show "raw_length n < 255"
  proof (cases "length nm = 0")
    case True
    with n show ?thesis by (simp add: raw_length_def)
  next
    case False
    with n short name_inv_raw_length [OF inv] show ?thesis by simp
  qed
qed

theorem readName_rejects_witness:
  "readName [0xc0, 0] 0 = Inl (EncodingError 2 ''Too many pointers'')
   \<and> readName [2, 97, 98, 0x80] 0 = Inl (EncodingError 4 ''Bad character'')
   \<and> readName [1, 97, 0] 0 = Inr (3, ''a.'') \<and> raw_length ''a.'' < 255"
proof -
  let ?D = "[0xc0, 0] :: buffer"
  have step: "readName_reach ?D (0, [], 0, 255, 0) (0, [], 2, 255, Suc k)" if "k < 10" for k
    using that
  proof (induction k)
    case 0
    show ?case
      using readName_reach.pointer [OF readName_reach.start, of 0 ?D 0 "[]" 0 255]
      by (simp add: numeral_2_eq_2)
  next
    case (Suc k)
    then have "readName_reach ?D (0, [], 0, 255, 0) (0, [], 2, 255, Suc k)" by simp
    from readName_reach.pointer [OF this] Suc.prems show ?case by simp
  qed
  have p: "readName ?D 0 = Inl (EncodingError 2 ''Too many pointers'')"
    using readName_rejects [of ?D 0 0 "[]" 2 255 10] step [of 9] by simp
  let ?E = "[2, 97, 98, 0x80] :: buffer"
  have "readName_reach ?E (0, [], 0, 255, 0) (0 + 1 + ?E ! 0, ''ab'' @ ''.'', 0, 255, 0)"
  proof (rule readName_reach.label [OF readName_reach.start])
    show "0 < length ?E" by simp
    show "?E ! 0 \<noteq> 0" by simp
    show "?E ! 0 AND 0xc0 = 0" by simp
    show "0 + 1 + ?E ! 0 \<le> length ?E" by simp
    show "readName_label ?E (0 + 1) (0 + 1) (?E ! 0) [] 255 = Inr (''ab'', 255)"
      by code_simp
  qed
  moreover have "0 + 1 + ?E ! 0 = 3" and "''ab'' @ ''.'' = ''ab.''" by simp_all
  ultimately have lab: "readName_reach ?E (0, [], 0, 255, 0) (3, ''ab.'', 0, 255, 0)"
    by (simp only:)
  have b: "readName ?E 0 = Inl (EncodingError 4 ''Bad character'')"
    using readName_rejects [of ?E 0 3 "''ab.''" 0 255 0] lab by simp
  have r: "readName [1, 97, 0] 0 = Inr (3, ''a.'')" by code_simp
  from readName_rejects [of "[1, 97, 0]" 0 0 "[]" 0 0 0 3 "''a.''"] r
  have "raw_length ''a.'' < 255" by blast
  with p b r show ?thesis by simp
qed

text \<open>
  C5 as stated also promises an error for every pointer whose target is at or beyond the
  current offset. The code has no such check: here the pointer at offset 0 points forward
  to offset 3 and is followed.
\<close>

theorem readName_follows_forward_pointer:
  "readName [0xc0, 3, 0xff, 1, 97, 0] 0 = Inr (2, ''a.'')"
  by code_simp

subsection \<open>Record data: where the parent reader is left\<close>

lemma ebind_Inr: "ebind m f = Inr y \<Longrightarrow> \<exists>x. m = Inr x \<and> f x = Inr y"
  by (cases m) (simp_all add: ebind_def)















lemma advances_offset_le: "advances a b \<Longrightarrow> br_offset a \<le> length (br_data a) \<and> br_offset b \<le> length (br_data b)"
  by (auto simp add: advances_def)














subsection \<open>Message.read: the additional section\<close>








lemmas reader_defs = readU8_def readU16BE_def readU32BE_def readBytes_def br_check_def br_left_def
  bio_read_def ebind_def readNameBR_def readName_def readName_loop.simps escape_octet_def
  reserved_octet_def toDDD_def ASCII_def DIGITS_def Let_def

lemmas record_defs = Record_read_def read_def read_switch_def UNKNOWNRecord_read_def ARecord_read_def
  readIP_def NSRecord_read_def CNAMERecord_read_def SIGRecord_read_def TSIGRecord_read_def
  OPTRecord_read_def OPTRecord_loop.simps Option_read_def readOption_def typed_option_code_def
  registry_types_def consts_defs


subsection \<open>Evaluating the writer\<close>

lemma list_update_numeral:
  "(x # xs)[numeral k := y] = x # xs[pred_numeral k := y]"
  by (simp add: numeral_eq_Suc)

lemma replicate_num: "replicate (numeral k) x = x # replicate (pred_numeral k) x"
  by (simp add: numeral_eq_Suc)

lemmas writeName_defs = writeName_def writeName_loop.simps writeName_dot_def writeName_escape_def
  write_label.simps shift_loop.simps isDigit_def toByte_def Buffer_writeUInt16BE_def ebind_def Let_def
  list_update_numeral

lemmas writer_defs = writeU8_def writeU16BE_def writeU32BE_def writeBytes_def bw_check_def
  bio_write_def render_def writeNameBW_def sizeName_def replicate_num

lemmas encode_defs = Message_encode_def getSizes_def pseudo_records_def Message_write_def
  write_sections_def write_header_def write_body_def header_bits_def force_edns_def bodyLength_def arcount_def toRecord_def
  Record_getSize_def Record_write_def RecordData_getSize_def RecordData_write_def
  Question_getSize_def Question_write_def Option_write_def Option_getSize_def
  OptionData_getSize_def OptionData_code_def writeIP_def and_not_def new_Message_def new_EDNS_def

lemmas decode_defs = Message_decode_def Message_read_def read_counts_def set_header_def
  read_sections_def read_rest_def place_additional_def isOPT_def isTSIG_def isSIG0_def
  setRecord_def tc_def getFlag_def

subsection \<open>writeName with compression\<close>

text \<open>
  C6. With compression enabled and a map that already holds the suffix, \<^verbatim>\<open>writeName\<close>
  should emit the two-octet pointer \<open>0xc000 | offset\<close> at the current output position.
  Here \<open>a.\<close> is in the map at offset 0 and is written at offset 3 of an 8-octet buffer:
  the code stores the label (\<open>1, 97\<close>) at offsets 3 and 4, then calls
  \<^verbatim>\<open>data.writeUInt16BE(pos, ptr ^ 0xc000, true)\<close> with value and offset exchanged, which
  stores the position 3 at offset 0xc000, outside the buffer. No pointer is written, and
  the offset returned is 5.
\<close>

theorem writeName_compression_writes_no_pointer:
  "map_sum id (\<lambda>(r, d, m). (r, d))
     (writeName (Some [0, 0, 0, 0, 0, 0, 0, 0]) ''a.'' 3 (Some [''a.'' \<mapsto> 0]) True)
   = Inr (RetPair 5 0, Some [0, 0, 0, 1, 97, 0, 0, 0])"
  by (simp add: writeName_defs)

subsection \<open>Encoding an extended response code\<close>

text \<open>
  C3. A message with response code 16 (BADVERS) should be encoded with the low four bits
  of the code in the header and the high eight in the TTL of an OPT record, and decode
  back to code 16. For a message whose EDNS is not enabled beforehand, \<^verbatim>\<open>encode\<close> sizes the
  buffer and counts the records before \<^verbatim>\<open>write\<close> enables EDNS: with no other record the
  OPT record is written into a buffer that is already full, and \<^verbatim>\<open>writeName\<close> throws.
\<close>

theorem encode_badvers_without_edns:
  "Message_encode False badvers
     = (badvers\<lparr>edns := new_EDNS\<lparr>e_enabled := True, e_code := 1\<rparr>\<rparr>, Inl (EncodingError 12 ''EOF''))"
  by (simp add: badvers_def encode_defs writer_defs writeName_defs consts_defs)

lemma readName_label_numeral:
  "readName_label data off j (numeral k) name mx =
     ebind (escape_octet (data ! j)) (\<lambda>(s, inc).
       if length (name @ s) \<ge> mx + inc then Inl (EncodingError off ''Max name length exceeded'')
       else readName_label data off (j + 1) (pred_numeral k) (name @ s) (mx + inc))"
  by (simp add: numeral_eq_Suc)

lemma nul_label_length: "length nul_label = 129"
  by (simp add: nul_label_def replicate_num)

text \<open>
  C1. Decoding what \<^verbatim>\<open>encode\<close> produced should give the message back. The query
  \<open>nul_query\<close> (83 octets) asks for a name of two labels of 32 zero octets each, 67 octets
  on the wire. \<^verbatim>\<open>readName\<close> writes every zero octet as the four characters of a decimal
  escape and raises its length limit by 3 each time, so the query decodes, to a message
  whose question name has 258 characters. \<^verbatim>\<open>writeName\<close> asserts that a name has at most
  254 characters, escapes included: \<^verbatim>\<open>encode\<close> of the decoded message throws from
  \<^verbatim>\<open>getSizes\<close> and produces no buffer to decode.
\<close>

theorem encode_refuses_decoded_name:
  "Message_decode nul_query = Inr nul_message
   \<and> Message_encode False nul_message = (nul_message, Inl AssertionError)"
proof
  show "Message_decode nul_query = Inr nul_message"
    by (simp add: nul_query_def nul_message_def nul_label_def replicate_num
        decode_defs reader_defs record_defs new_Message_def new_EDNS_def and_not_def
        Question_read_def new_Question_def read_question.simps readName_label_numeral)
  show "Message_encode False nul_message = (nul_message, Inl AssertionError)"
    by (simp add: nul_message_def nul_label_length Message_encode_def getSizes_def Question_getSize_def
         sizeName_def writeName_def ebind_def new_Message_def new_EDNS_def consts_defs)
qed

subsection \<open>The receiver after write\<close>

lemma write_records_flow:
  "(write_records bw items rrs = Inr (Return bw') \<longrightarrow> 1 \<le> items \<and> items \<le> int (length rrs))
   \<and> (write_records bw items rrs = Inr (Next (bw', items')) \<longrightarrow>
        items' = items - int (length rrs) \<and> (items \<le> 0 \<or> items > int (length rrs)))"
proof (induction rrs arbitrary: bw items)
  case Nil
  then show ?case by auto
next
  case (Cons rr rrs)
  show ?case
  proof (cases "Record_write bw rr")
    case (Inl e)
    then show ?thesis by (simp add: ebind_def)
  next
    case (Inr b1)
    show ?thesis
    proof (cases "items - 1 = 0")
      case True
      with Inr show ?thesis by (auto simp add: ebind_def)
    next
      case False
      with Inr Cons.IH [of b1 "items - 1"] show ?thesis by (auto simp add: ebind_def)
    qed
  qed
qed

lemma write_body_flow:
  "(write_body bw items msg = Inr (Return bw') \<longrightarrow> 1 \<le> items \<and> items \<le> regular_count msg)
   \<and> (write_body bw items msg = Inr (Next (bw', items')) \<longrightarrow>
        items' = items - regular_count msg \<and> (items \<le> 0 \<or> items > regular_count msg))"
proof -
  { fix r
    assume an: "write_body bw items msg = Inr r"
    then obtain f1 where f1: "write_records bw items (answer msg) = Inr f1" 
      unfolding write_body_def by (auto dest!: ebind_Inr)
    have "(\<forall>b. r = Return b \<longrightarrow> 1 \<le> items \<and> items \<le> regular_count msg)
        \<and> (\<forall>b i. r = Next (b, i) \<longrightarrow> i = items - regular_count msg \<and> (items \<le> 0 \<or> items > regular_count msg))"
    proof (cases f1)
      case (Return b1)
      with an f1 write_records_flow [of bw items "answer msg" b1] show ?thesis
        by (auto simp add: write_body_def ebind_def regular_count_def)
    next
      case (Next p1)
      obtain b1 i1 where p1: "p1 = (b1, i1)" by (cases p1)
      from write_records_flow [of bw items "answer msg" b1 i1] f1 Next p1
      have i1: "i1 = items - int (length (answer msg))" "items \<le> 0 \<or> items > int (length (answer msg))"
        by auto
      from an f1 Next p1 obtain f2 where f2: "write_records b1 i1 (authority msg) = Inr f2"
        and r2: "(case f2 of Return bw \<Rightarrow> Inr (Return bw) | Next (bw, items) \<Rightarrow>
              write_records bw items (additional msg)) = Inr r"
        by (auto simp add: write_body_def ebind_def split: sum.splits)
      show ?thesis
      proof (cases f2)
        case (Return b2)
        with r2 f2 write_records_flow [of b1 i1 "authority msg" b2] i1 show ?thesis
          by (auto simp add: regular_count_def)
      next
        case (Next p2)
        obtain b2 i2 where p2: "p2 = (b2, i2)" by (cases p2)
        from write_records_flow [of b1 i1 "authority msg" b2 i2] f2 Next p2
        have i2: "i2 = i1 - int (length (authority msg))" "i1 \<le> 0 \<or> i1 > int (length (authority msg))"
          by auto
        from r2 Next p2 have r3: "write_records b2 i2 (additional msg) = Inr r" by simp
        show ?thesis
        proof (cases r)
          case (Return b3)
          with r3 write_records_flow [of b2 i2 "additional msg" b3] i1 i2 show ?thesis
            by (auto simp add: regular_count_def)
        next
          case (Next p3)
          obtain b3 i3 where p3: "p3 = (b3, i3)" by (cases p3)
          from write_records_flow [of b2 i2 "additional msg" b3 i3] r3 Next p3 i1 i2
          show ?thesis by (auto simp add: regular_count_def)
        qed
      qed
    qed }
  then show ?thesis by blast
qed

lemma write_sections_flow:
  "(write_sections bw items msg = Inr (Return bw') \<longrightarrow> 1 \<le> items \<and> items \<le> regular_count msg)
   \<and> (write_sections bw items msg = Inr (Next (bw', items')) \<longrightarrow>
        items' = items - regular_count msg \<and> (items \<le> 0 \<or> items > regular_count msg))"
proof (cases "write_header bw items msg")
  case (Inl e)
  then show ?thesis by (simp add: write_sections_def ebind_def)
next
  case (Inr b0)
  with write_body_flow [of b0 items msg bw' items'] show ?thesis
    by (simp add: write_sections_def ebind_def)
qed


text \<open>A message whose code is at most 15 is returned as it was by \<^verbatim>\<open>write\<close> and by
  \<^verbatim>\<open>encode\<close>, whatever its EDNS state.\<close>

lemma write_keeps_receiver_up_to_15:
  assumes le: "m_code msg \<le> 0x0f"
  shows "fst (Message_write bw items msg) = msg \<and> fst (Message_encode udp msg) = msg"
proof
  from le have fe: "force_edns msg = msg" by (simp add: force_edns_def)
  have w: "fst (Message_write b i msg) = msg" for b i
    by (auto simp add: Message_write_def Let_def fe split: sum.splits flow.splits)
  from w show "fst (Message_write bw items msg) = msg" .
  show "fst (Message_encode udp msg) = msg"
  proof (cases "getSizes udp msg")
    case (Inl e)
    then show ?thesis by (simp add: Message_encode_def)
  next
    case (Inr p)
    obtain sz it where p: "p = (sz, it)" by (cases p)
    with Inr w [of "bio_write sz" it] show ?thesis
      by (cases "Message_write (bio_write sz) it msg") (simp add: Message_encode_def)
  qed
qed

text \<open>
  C10. \<^verbatim>\<open>write\<close> should set \<^verbatim>\<open>edns.enabled\<close> and \<^verbatim>\<open>edns.code\<close> on its receiver whenever the
  code exceeds 15, before the OPT record is emitted. For a message with code 16, one
  authority record and EDNS disabled, \<^verbatim>\<open>encode\<close> succeeds and the receiver is as it was:
  the body length, taken before the assignment, is 1, so the authority loop uses up the
  item count and \<^verbatim>\<open>write\<close> returns from it. The output ends with the authority record, its
  header has ARCOUNT 0 and RCODE 0, and no OPT record follows.
\<close>

theorem write_leaves_code_16_receiver:
  "m_code (badvers\<lparr>authority := [a_record]\<rparr>) = 16
   \<and> \<not> e_enabled (edns (badvers\<lparr>authority := [a_record]\<rparr>))
   \<and> Message_encode False (badvers\<lparr>authority := [a_record]\<rparr>)
       = (badvers\<lparr>authority := [a_record]\<rparr>,
          Inr [0,0,0,0,0,0,0,0,0,1,0,0,1,97,0,0,1,0,1,0,0,0,60,0,4,1,2,3,4])"
  by (simp add: badvers_def a_record_def encode_defs writer_defs writeName_defs consts_defs)

end
